theory Spec2Isabelle
  imports Main "HOL-Library.AList"
begin

section \<open>ClawAPI: key vault, model selection and OpenClaw synchronisation\<close>

text \<open>
  A shallow embedding of the three front ends of the repository:
  \<^verbatim>\<open>clawapi.py\<close> (cross-platform command line), \<^verbatim>\<open>clawapi-linux.py\<close>
  (Linux command line) and \<^verbatim>\<open>webui.py\<close> (web console). Functions that exist in
  more than one file with different bodies carry a suffix naming the file:
  \<open>_cli\<close> for \<^verbatim>\<open>clawapi.py\<close>, \<open>_linux\<close> for \<^verbatim>\<open>clawapi-linux.py\<close>
  and \<open>_web\<close> for \<^verbatim>\<open>webui.py\<close>.

  A Python \<^verbatim>\<open>str\<close> is a \<open>string\<close>: a list of characters, one \<open>char\<close> for each
  code point, so \<open>length\<close> is Python's \<^verbatim>\<open>len\<close>. The characters of the model are the
  code points 0 to 255; on them \<^verbatim>\<open>str.encode()\<close> and \<^verbatim>\<open>bytes.decode()\<close> are read as
  the identity between text and bytes.
\<close>

subsection \<open>Python strings\<close>

type_synonym bytes = string

text \<open>\<^verbatim>\<open>xs[i:]\<close> and \<^verbatim>\<open>xs[:j]\<close>: a negative index counts from the end, and an index
  out of range is clipped.\<close>

definition slice_from :: "int \<Rightarrow> 'a list \<Rightarrow> 'a list" where
  "slice_from i xs =
     (if i < 0 then drop (nat (int (length xs) + i)) xs else drop (nat i) xs)"

definition slice_to :: "int \<Rightarrow> 'a list \<Rightarrow> 'a list" where
  "slice_to j xs =
     (if j < 0 then take (nat (int (length xs) + j)) xs else take (nat j) xs)"

text \<open>\<^verbatim>\<open>str.lower()\<close> on the code points below 256: the capital letters are \<^verbatim>\<open>A-Z\<close>
  and the code points 192 to 222 without the multiplication sign 215.\<close>

definition lower_char :: "char \<Rightarrow> char" where
  "lower_char c =
     (let n = (of_char c :: nat)
      in if (65 \<le> n \<and> n \<le> 90) \<or> (192 \<le> n \<and> n \<le> 222 \<and> n \<noteq> 215) then char_of (n + 32)
         else c)"

definition lower :: "string \<Rightarrow> string" where
  "lower s = map lower_char s"

text \<open>\<^verbatim>\<open>str.upper()\<close> on the code points below 256: the small letters are \<^verbatim>\<open>a-z\<close> and
  the code points 224 to 254 without the division sign 247, and the sharp s (223)
  becomes \<^verbatim>\<open>SS\<close>. The capitals of the micro sign (181) and of y with diaeresis (255)
  lie beyond code point 255; the model leaves these two characters as they are.\<close>

definition upper_char :: "char \<Rightarrow> string" where
  "upper_char c =
     (let n = (of_char c :: nat)
      in if (97 \<le> n \<and> n \<le> 122) \<or> (224 \<le> n \<and> n \<le> 254 \<and> n \<noteq> 247) then [char_of (n - 32)]
         else if n = 223 then ''SS''
         else [c])"

definition upper :: "string \<Rightarrow> string" where
  "upper s = concat (map upper_char s)"

text \<open>The characters \<^verbatim>\<open>str.strip()\<close> removes: those for which \<^verbatim>\<open>str.isspace()\<close>
  holds, among the code points below 256.\<close>

definition isspace :: "char \<Rightarrow> bool" where
  "isspace c =
     (let n = (of_char c :: nat)
      in (9 \<le> n \<and> n \<le> 13) \<or> (28 \<le> n \<and> n \<le> 32) \<or> n = 133 \<or> n = 160)"

definition strip :: "string \<Rightarrow> string" where
  "strip s = rev (dropWhile isspace (rev (dropWhile isspace s)))"

text \<open>\<^verbatim>\<open>s.split(sep, 1)\<close> for a separator of one character: the text before the first
  separator and the text after it, or the whole text alone when there is none.\<close>

definition split1 :: "char \<Rightarrow> string \<Rightarrow> string list" where
  "split1 sep s =
     (if sep \<in> set s
      then [takeWhile (\<lambda>c. c \<noteq> sep) s, tl (dropWhile (\<lambda>c. c \<noteq> sep) s)]
      else [s])"

text \<open>\<^verbatim>\<open>s.replace(c, '')\<close> for one character \<open>c\<close>.\<close>

definition remove_char :: "char \<Rightarrow> string \<Rightarrow> string" where
  "remove_char c s = filter (\<lambda>d. d \<noteq> c) s"

text \<open>What Python reads from a file opened in text mode: a carriage return followed
  by a newline, and a carriage return alone, are read as one newline.\<close>

fun universal_newlines :: "string \<Rightarrow> string" where
  "universal_newlines [] = []"
| "universal_newlines [c] = [if c = CHR 0x0D then CHR 0x0A else c]"
| "universal_newlines (c # d # ds) =
     (if c = CHR 0x0D \<and> d = CHR 0x0A then CHR 0x0A # universal_newlines ds
      else if c = CHR 0x0D then CHR 0x0A # universal_newlines (d # ds)
      else c # universal_newlines (d # ds))"

text \<open>The lines of a text that has been read: each line with its newline; a last line
  without a newline is a line too, and the empty text has no line.\<close>

fun readlines_acc :: "string \<Rightarrow> string \<Rightarrow> string list" where
  "readlines_acc cur [] = (if cur = [] then [] else [cur])"
| "readlines_acc cur (c # cs) =
     (if c = CHR 0x0A then (cur @ [c]) # readlines_acc [] cs
      else readlines_acc (cur @ [c]) cs)"

text \<open>\<^verbatim>\<open>f.readlines()\<close> on the content of a file opened in text mode.\<close>

definition readlines :: "string \<Rightarrow> string list" where
  "readlines content = readlines_acc [] (universal_newlines content)"

subsection \<open>The activity log (\<^verbatim>\<open>webui.py\<close>)\<close>

text \<open>One element of the list \<^verbatim>\<open>get_activity_logs\<close> returns: the dictionary with the
  keys \<^verbatim>\<open>time\<close>, \<^verbatim>\<open>message\<close> and \<^verbatim>\<open>level\<close>.\<close>

record log_entry =
  time :: string
  message :: string
  level :: string

text \<open>The line \<^verbatim>\<open>log_activity\<close> appends, for the time stamp the clock gives.\<close>

definition log_line :: "string \<Rightarrow> string \<Rightarrow> string \<Rightarrow> string" where
  "log_line timestamp msg lvl =
     timestamp @ '' ['' @ upper lvl @ ''] '' @ msg @ [CHR 0x0A]"

text \<open>The body of the loop of \<^verbatim>\<open>get_activity_logs\<close>: what one line adds to
  \<^verbatim>\<open>logs\<close>.\<close>

definition parse_log_line :: "string \<Rightarrow> log_entry list" where
  "parse_log_line line =
     (let parts = split1 (CHR '']'') (strip line)
      in if length parts = 2
         then
           (let time_part = remove_char (CHR ''['') (parts ! 0);
                msg = strip (parts ! 1);
                msg_parts = split1 (CHR '']'') msg
            in if CHR ''['' \<in> set msg \<and> length msg_parts = 2
               then [\<lparr>time = time_part, message = strip (msg_parts ! 1),
                      level = strip (msg_parts ! 0)\<rparr>]
               else [\<lparr>time = time_part, message = msg, level = ''info''\<rparr>])
         else [])"

text \<open>\<^verbatim>\<open>get_activity_logs(limit)\<close> on the text of the log file, \<open>None\<close> when the
  file does not exist.\<close>

definition get_activity_logs :: "string option \<Rightarrow> int \<Rightarrow> log_entry list" where
  "get_activity_logs log_file limit =
     (case log_file of
        None \<Rightarrow> []
      | Some text \<Rightarrow> rev (concat (map parse_log_line (slice_from (- limit) (readlines text)))))"

subsection \<open>The masked key (\<^verbatim>\<open>clawapi-linux.py\<close>)\<close>

text \<open>The expression \<^verbatim>\<open>key[:8] + "..." + key[-4:] if len(key) > 12 else "***"\<close> of
  \<^verbatim>\<open>show_key\<close>.\<close>

definition masked :: "string \<Rightarrow> string" where
  "masked key =
     (if length key > 12 then slice_to 8 key @ ''...'' @ slice_from (- 4) key else ''***'')"

subsection \<open>Exceptions\<close>

text \<open>The exceptions the modelled code can raise. \<open>SystemExit\<close> is \<^verbatim>\<open>sys.exit\<close> with
  its status.\<close>

datatype error =
    TypeError
  | KeyError
  | AttributeError
  | JSONDecodeError
  | BinasciiError
  | InvalidToken
  | ValueError
  | SystemExit nat

subsection \<open>Base64 (\<^verbatim>\<open>base64.b64encode\<close>, \<^verbatim>\<open>base64.b64decode\<close>)\<close>

text \<open>The standard alphabet: \<^verbatim>\<open>A-Z\<close>, \<^verbatim>\<open>a-z\<close>, \<^verbatim>\<open>0-9\<close>, \<^verbatim>\<open>+\<close> and \<^verbatim>\<open>/\<close>.\<close>

definition b64_char :: "nat \<Rightarrow> char" where
  "b64_char n =
     (if n < 26 then char_of (n + 65)
      else if n < 52 then char_of (n + 71)
      else if n < 62 then char_of (n - 4)
      else if n = 62 then CHR ''+'' else CHR ''/'')"

definition b64_value :: "char \<Rightarrow> nat option" where
  "b64_value c =
     (let n = (of_char c :: nat)
      in if 65 \<le> n \<and> n \<le> 90 then Some (n - 65)
         else if 97 \<le> n \<and> n \<le> 122 then Some (n - 71)
         else if 48 \<le> n \<and> n \<le> 57 then Some (n + 4)
         else if n = 43 then Some 62
         else if n = 47 then Some 63
         else None)"

fun b64encode :: "bytes \<Rightarrow> string" where
  "b64encode [] = []"
| "b64encode [a] =
     (let x = (of_char a :: nat)
      in [b64_char (x div 4), b64_char ((x mod 4) * 16), CHR ''='', CHR ''=''])"
| "b64encode [a, b] =
     (let x = (of_char a :: nat); y = (of_char b :: nat)
      in [b64_char (x div 4), b64_char ((x mod 4) * 16 + y div 16),
          b64_char ((y mod 16) * 4), CHR ''=''])"
| "b64encode (a # b # c # rest) =
     (let x = (of_char a :: nat); y = (of_char b :: nat); z = (of_char c :: nat)
      in [b64_char (x div 4), b64_char ((x mod 4) * 16 + y div 16),
          b64_char ((y mod 16) * 4 + z div 64), b64_char (z mod 64)] @ b64encode rest)"

text \<open>
  The decoder of \<^verbatim>\<open>binascii.a2b_base64\<close> as \<^verbatim>\<open>base64.b64decode\<close> calls it (not
  strict): a character outside the alphabet is skipped, the characters of the alphabet are
  read in groups of four, a padding sign that completes a group of two or three characters
  ends the input, and an incomplete group at the end of the input is an error. The state
  is the position in the group, the bits left over from the last character, the number of
  padding signs seen and the bytes decoded so far.
\<close>

fun a2b_base64 :: "nat \<Rightarrow> nat \<Rightarrow> nat \<Rightarrow> bytes \<Rightarrow> string \<Rightarrow> error + bytes" where
  "a2b_base64 quad_pos leftchar pads acc [] =
     (if quad_pos \<noteq> 0 then Inl BinasciiError else Inr acc)"
| "a2b_base64 quad_pos leftchar pads acc (c # cs) =
     (if c = CHR ''=''
      then (if quad_pos \<ge> 2 \<and> quad_pos + (pads + 1) \<ge> 4 then Inr acc
            else a2b_base64 quad_pos leftchar (if quad_pos \<ge> 2 then pads + 1 else pads) acc cs)
      else
        (case b64_value c of
           None \<Rightarrow> a2b_base64 quad_pos leftchar pads acc cs
         | Some v \<Rightarrow>
             (if quad_pos = 0 then a2b_base64 1 v 0 acc cs
              else if quad_pos = 1
                then a2b_base64 2 (v mod 16) 0 (acc @ [char_of (leftchar * 4 + v div 16)]) cs
              else if quad_pos = 2
                then a2b_base64 3 (v mod 4) 0 (acc @ [char_of (leftchar * 16 + v div 4)]) cs
              else a2b_base64 0 0 0 (acc @ [char_of (leftchar * 64 + v)]) cs)))"

definition b64decode :: "string \<Rightarrow> error + bytes" where
  "b64decode s = a2b_base64 0 0 0 [] s"

subsection \<open>JSON documents and the Python operations on them\<close>

text \<open>
  The values \<^verbatim>\<open>json.load\<close> returns. An object is a Python \<^verbatim>\<open>dict\<close>: an association
  list in insertion order, where assigning to a key that is present keeps its place
  (\<open>AList.update\<close>) and deleting a key removes it (\<open>AList.delete\<close>). A number
  without fraction and exponent is a Python \<^verbatim>\<open>int\<close>; any other number is a Python
  \<^verbatim>\<open>float\<close>, held as the text \<^verbatim>\<open>json.dump\<close> writes for it (its \<^verbatim>\<open>repr\<close>, such as
  \<^verbatim>\<open>1.5\<close>, or \<^verbatim>\<open>Infinity\<close> and \<^verbatim>\<open>NaN\<close>, which \<^verbatim>\<open>json.load\<close> also reads). No
  function of the program computes with a number.
\<close>

datatype json =
    JNull
  | JBool bool
  | JNum int
  | JFloat string
  | JStr string
  | JArr "json list"
  | JObj "(string \<times> json) list"

text \<open>\<^verbatim>\<open>k in s\<close> for two strings: \<open>k\<close> occurs in \<open>s\<close>.\<close>

fun occurs_in :: "string \<Rightarrow> string \<Rightarrow> bool" where
  "occurs_in k [] = (k = [])"
| "occurs_in k (c # cs) = (take (length k) (c # cs) = k \<or> occurs_in k cs)"

text \<open>\<^verbatim>\<open>k in x\<close> for a string \<open>k\<close>: a key of a dict, an element of a list, a part of a
  string; the other values are not containers.\<close>

fun py_in :: "string \<Rightarrow> json \<Rightarrow> error + bool" where
  "py_in k (JObj d) = Inr (k \<in> fst ` set d)"
| "py_in k (JArr xs) = Inr (JStr k \<in> set xs)"
| "py_in k (JStr s) = Inr (occurs_in k s)"
| "py_in k _ = Inl TypeError"

text \<open>\<^verbatim>\<open>x[k]\<close> for a string \<open>k\<close>.\<close>

fun py_getitem :: "json \<Rightarrow> string \<Rightarrow> error + json" where
  "py_getitem (JObj d) k = (case map_of d k of None \<Rightarrow> Inl KeyError | Some v \<Rightarrow> Inr v)"
| "py_getitem _ k = Inl TypeError"

text \<open>\<^verbatim>\<open>x[k] = v\<close> for a string \<open>k\<close>; the result is \<open>x\<close> after the assignment.\<close>

fun py_setitem :: "json \<Rightarrow> string \<Rightarrow> json \<Rightarrow> error + json" where
  "py_setitem (JObj d) k v = Inr (JObj (AList.update k v d))"
| "py_setitem _ k v = Inl TypeError"

text \<open>\<^verbatim>\<open>del x[k]\<close> for a string \<open>k\<close>; the result is \<open>x\<close> after the deletion.\<close>

fun py_delitem :: "json \<Rightarrow> string \<Rightarrow> error + json" where
  "py_delitem (JObj d) k =
     (if k \<in> fst ` set d then Inr (JObj (AList.delete k d)) else Inl KeyError)"
| "py_delitem _ k = Inl TypeError"

text \<open>Sequencing of steps that can raise: the first exception ends the computation.\<close>

definition and_then :: "error + 'a \<Rightarrow> ('a \<Rightarrow> error + 'b) \<Rightarrow> error + 'b" where
  "and_then r f = (case r of Inl e \<Rightarrow> Inl e | Inr x \<Rightarrow> f x)"

subsection \<open>The files\<close>

text \<open>
  The program keeps its state in five files. Three hold JSON: \<^verbatim>\<open>keys.enc\<close>,
  \<^verbatim>\<open>config.json\<close> and OpenClaw's \<^verbatim>\<open>openclaw.json\<close>. The content of such a file is the
  document it holds (\<open>Doc\<close>) or a text that \<^verbatim>\<open>json.load\<close> rejects (\<open>Malformed\<close>, with
  that text); the empty file is \<open>Malformed []\<close>. A file is identified with the document
  \<^verbatim>\<open>json.load\<close> reads from it: how the document is laid out as text (white space, the
  spelling of a number or of a string) is not part of the model, and a value is the
  value Python reads. The master key file holds bytes and the activity log holds text.
  Permission bits (\<^verbatim>\<open>os.chmod\<close>) and directories (\<^verbatim>\<open>mkdir\<close>) are not part of the
  model.

  The world also holds what the program takes from its environment: \<open>rng\<close>, the state of
  the source of random bytes and time that the encryption draws from, and \<open>clock\<close>,
  the time stamp \<^verbatim>\<open>datetime.now().strftime(...)\<close> returns.
\<close>

datatype path = KEYS_FILE | CONFIG_FILE | OPENCLAW_CONFIG

datatype content = Doc json | Malformed string

record world =
  files :: "path \<Rightarrow> content option"
  master_key_file :: "bytes option"
  activity_log :: "string option"
  rng :: nat
  clock :: string

text \<open>
  The steps of a write, as the file system sees them: \<^verbatim>\<open>open(path, 'w')\<close> creates the
  file or truncates it to the empty file; \<^verbatim>\<open>json.dump\<close> (or \<^verbatim>\<open>write_text\<close> of
  \<^verbatim>\<open>json.dumps\<close>) then writes the document into it; \<^verbatim>\<open>open(log, 'a')\<close> with
  \<^verbatim>\<open>write\<close> appends a line to the log, creating it when it does not exist;
  \<^verbatim>\<open>write_bytes\<close> on the master key file opens it and writes the key.
\<close>

datatype fs_op =
    Open_w path
  | Dump path json
  | Append_log string
  | Open_key
  | Write_key bytes

fun exec_op :: "fs_op \<Rightarrow> world \<Rightarrow> world" where
  "exec_op (Open_w p) w = w\<lparr>files := (files w)(p \<mapsto> Malformed [])\<rparr>"
| "exec_op (Dump p j) w = w\<lparr>files := (files w)(p \<mapsto> Doc j)\<rparr>"
| "exec_op (Append_log line) w =
     w\<lparr>activity_log := Some (case activity_log w of None \<Rightarrow> line | Some t \<Rightarrow> t @ line)\<rparr>"
| "exec_op Open_key w = w\<lparr>master_key_file := Some []\<rparr>"
| "exec_op (Write_key k) w = w\<lparr>master_key_file := Some k\<rparr>"

definition exec :: "fs_op list \<Rightarrow> world \<Rightarrow> world" where
  "exec ops w = fold exec_op ops w"

text \<open>\<^verbatim>\<open>json.load\<close> on the content of a file.\<close>

fun json_load :: "content \<Rightarrow> error + json" where
  "json_load (Doc j) = Inr j"
| "json_load (Malformed t) = Inl JSONDecodeError"

subsection \<open>The stores of \<^verbatim>\<open>clawapi.py\<close> and \<^verbatim>\<open>webui.py\<close>\<close>

text \<open>\<^verbatim>\<open>load_keys\<close>, \<^verbatim>\<open>save_keys\<close>, \<^verbatim>\<open>load_config\<close> and \<^verbatim>\<open>save_config\<close> have the same
  body in both files. \<^verbatim>\<open>load_keys\<close> returns the document as it is, without decrypting,
  and the empty dict for a file that is missing or does not parse.\<close>

definition load_keys :: "world \<Rightarrow> json" where
  "load_keys w =
     (case files w KEYS_FILE of
        None \<Rightarrow> JObj []
      | Some c \<Rightarrow> (case json_load c of Inl e \<Rightarrow> JObj [] | Inr j \<Rightarrow> j))"

definition save_keys_ops :: "json \<Rightarrow> fs_op list" where
  "save_keys_ops keys = [Open_w KEYS_FILE, Dump KEYS_FILE keys]"

definition save_keys :: "json \<Rightarrow> world \<Rightarrow> world" where
  "save_keys keys w = exec (save_keys_ops keys) w"

definition load_config :: "world \<Rightarrow> error + json" where
  "load_config w =
     (case files w CONFIG_FILE of
        Some c \<Rightarrow> json_load c
      | None \<Rightarrow> Inr (JObj [(''selected_models'', JObj [])]))"

definition save_config_ops :: "json \<Rightarrow> fs_op list" where
  "save_config_ops config = [Open_w CONFIG_FILE, Dump CONFIG_FILE config]"

definition save_config :: "json \<Rightarrow> world \<Rightarrow> world" where
  "save_config config w = exec (save_config_ops config) w"

subsection \<open>The provider catalogues\<close>

text \<open>
  The table \<^verbatim>\<open>PROVIDERS\<close> of each file, with the display name and the default model of
  every provider. The lists of models (read by \<^verbatim>\<open>list_models\<close> only), the flag
  \<^verbatim>\<open>local\<close> and the billing address are left out: no function modelled here reads them.
\<close>

record provider_info =
  name :: string
  default_model :: string

definition PROVIDERS_cli :: "(string \<times> provider_info) list" where
  "PROVIDERS_cli =
    [(''openai'', \<lparr>name = ''OpenAI'', default_model = ''gpt-4o''\<rparr>),
     (''anthropic'', \<lparr>name = ''Anthropic'', default_model = ''claude-sonnet-4-6''\<rparr>),
     (''google'', \<lparr>name = ''Google'', default_model = ''gemini-2.0-flash''\<rparr>),
     (''xai'', \<lparr>name = ''xAI'', default_model = ''grok-2''\<rparr>),
     (''groq'', \<lparr>name = ''Groq'', default_model = ''llama-3.3-70b-versatile''\<rparr>),
     (''mistral'', \<lparr>name = ''Mistral'', default_model = ''mistral-small-latest''\<rparr>),
     (''ollama'', \<lparr>name = ''Ollama'', default_model = ''llama3.3''\<rparr>),
     (''minimax'', \<lparr>name = ''MiniMax'', default_model = ''MiniMax-M2.1''\<rparr>),
     (''zai'', \<lparr>name = ''Zhipu AI (GLM)'', default_model = ''glm-4''\<rparr>),
     (''openrouter'', \<lparr>name = ''OpenRouter'', default_model = ''anthropic/claude-3.5-sonnet''\<rparr>),
     (''cerebras'', \<lparr>name = ''Cerebras'', default_model = ''llama-3.3-70b''\<rparr>),
     (''huggingface'', \<lparr>name = ''HuggingFace'', default_model = ''meta-llama/Llama-3.3-70B-Instruct''\<rparr>),
     (''kimi-coding'', \<lparr>name = ''Kimi Coding'', default_model = ''kimi-coder-flash''\<rparr>),
     (''opencode'', \<lparr>name = ''OpenCode'', default_model = ''opencode''\<rparr>),
     (''vercel-ai-gateway'', \<lparr>name = ''Vercel AI Gateway'', default_model = ''gpt-4o''\<rparr>)]"

definition PROVIDERS_linux :: "(string \<times> provider_info) list" where
  "PROVIDERS_linux =
    [(''openai'', \<lparr>name = ''OpenAI'', default_model = ''gpt-4o''\<rparr>),
     (''anthropic'', \<lparr>name = ''Anthropic'', default_model = ''claude-sonnet-4-6''\<rparr>),
     (''google'', \<lparr>name = ''Google'', default_model = ''gemini-2.0-flash''\<rparr>),
     (''xai'', \<lparr>name = ''xAI'', default_model = ''grok-2''\<rparr>),
     (''groq'', \<lparr>name = ''Groq'', default_model = ''llama-3.3-70b-versatile''\<rparr>),
     (''mistral'', \<lparr>name = ''Mistral'', default_model = ''mistral-small-latest''\<rparr>),
     (''ollama'', \<lparr>name = ''Ollama'', default_model = ''llama3.3''\<rparr>),
     (''minimax'', \<lparr>name = ''MiniMax'', default_model = ''MiniMax-M2.1''\<rparr>),
     (''zai'', \<lparr>name = ''Zhipu AI (GLM)'', default_model = ''glm-4''\<rparr>)]"

definition PROVIDERS_web :: "(string \<times> provider_info) list" where
  "PROVIDERS_web =
    [(''openai'', \<lparr>name = ''OpenAI'', default_model = ''gpt-4o''\<rparr>),
     (''anthropic'', \<lparr>name = ''Anthropic'', default_model = ''claude-sonnet-4-6''\<rparr>),
     (''google'', \<lparr>name = ''Google'', default_model = ''gemini-2.0-flash''\<rparr>),
     (''xai'', \<lparr>name = ''xAI'', default_model = ''grok-2''\<rparr>),
     (''groq'', \<lparr>name = ''Groq'', default_model = ''llama-3.3-70b-versatile''\<rparr>),
     (''mistral'', \<lparr>name = ''Mistral'', default_model = ''mistral-small-latest''\<rparr>),
     (''ollama'', \<lparr>name = ''Ollama'', default_model = ''llama3.3''\<rparr>),
     (''minimax'', \<lparr>name = ''MiniMax'', default_model = ''MiniMax-M2.1''\<rparr>),
     (''zai'', \<lparr>name = ''Zhipu AI (GLM)'', default_model = ''glm-4''\<rparr>),
     (''openrouter'', \<lparr>name = ''OpenRouter'', default_model = ''anthropic/claude-3.5-sonnet''\<rparr>),
     (''cerebras'', \<lparr>name = ''Cerebras'', default_model = ''llama-3.3-70b''\<rparr>),
     (''huggingface'', \<lparr>name = ''HuggingFace'', default_model = ''meta-llama/Llama-3.3-70B-Instruct''\<rparr>),
     (''kimi-coding'', \<lparr>name = ''Kimi Coding (Moonshot)'', default_model = ''kimi-coder-flash''\<rparr>),
     (''opencode'', \<lparr>name = ''OpenCode'', default_model = ''opencode''\<rparr>),
     (''vercel-ai-gateway'', \<lparr>name = ''Vercel AI Gateway'', default_model = ''gpt-4o''\<rparr>)]"

subsection \<open>The cipher\<close>

text \<open>
  \<^verbatim>\<open>cryptography.fernet.Fernet\<close> is a library, taken as a parameter: \<open>valid_key\<close> says
  whether the constructor \<^verbatim>\<open>Fernet(key)\<close> accepts the key (it raises \<^verbatim>\<open>ValueError\<close>
  otherwise), \<open>generate_key\<close> is \<^verbatim>\<open>Fernet.generate_key()\<close> and \<open>encrypt\<close> is
  \<^verbatim>\<open>f.encrypt\<close>, both drawing on the random source, and \<open>decrypt\<close> is \<^verbatim>\<open>f.decrypt\<close>,
  \<open>None\<close> when it raises \<^verbatim>\<open>InvalidToken\<close>.
\<close>

record fernet =
  valid_key :: "bytes \<Rightarrow> bool"
  generate_key :: "nat \<Rightarrow> bytes"
  encrypt :: "bytes \<Rightarrow> nat \<Rightarrow> bytes \<Rightarrow> bytes"
  decrypt :: "bytes \<Rightarrow> bytes \<Rightarrow> bytes option"

text \<open>What the library promises: a generated key is accepted, and a token decrypts under
  the key that made it.\<close>

definition fernet_ok :: "fernet \<Rightarrow> bool" where
  "fernet_ok F \<longleftrightarrow>
     (\<forall>n. valid_key F (generate_key F n)) \<and>
     (\<forall>k n m. valid_key F k \<longrightarrow> decrypt F k (encrypt F k n m) = Some m)"

text \<open>\<^verbatim>\<open>get_master_key\<close>: the content of the key file, or a new key written to it.\<close>

definition get_master_key :: "fernet \<Rightarrow> world \<Rightarrow> bytes \<times> world" where
  "get_master_key F w =
     (case master_key_file w of
        Some key \<Rightarrow> (key, w)
      | None \<Rightarrow>
          (let key = generate_key F (rng w)
           in (key, exec [Open_key, Write_key key] (w\<lparr>rng := Suc (rng w)\<rparr>))))"

definition encrypt_key :: "fernet \<Rightarrow> string \<Rightarrow> world \<Rightarrow> (error + string) \<times> world" where
  "encrypt_key F key w =
     (let (mk, w1) = get_master_key F w
      in if \<not> valid_key F mk then (Inl ValueError, w1)
         else (Inr (b64encode (encrypt F mk (rng w1) key)), w1\<lparr>rng := Suc (rng w1)\<rparr>))"

text \<open>\<^verbatim>\<open>decrypt_key\<close> receives what the keys file holds for a provider: any JSON value.
  A value that is not a string has no \<^verbatim>\<open>encode\<close>.\<close>

definition decrypt_key :: "fernet \<Rightarrow> json \<Rightarrow> world \<Rightarrow> (error + string) \<times> world" where
  "decrypt_key F encrypted w =
     (let (mk, w1) = get_master_key F w
      in if \<not> valid_key F mk then (Inl ValueError, w1)
         else
           (case encrypted of
              JStr s \<Rightarrow>
                (case b64decode s of
                   Inl e \<Rightarrow> (Inl e, w1)
                 | Inr token \<Rightarrow>
                     (case decrypt F mk token of
                        None \<Rightarrow> (Inl InvalidToken, w1)
                      | Some plain \<Rightarrow> (Inr plain, w1)))
            | _ \<Rightarrow> (Inl AttributeError, w1)))"

subsection \<open>The vault of \<^verbatim>\<open>clawapi-linux.py\<close>\<close>

text \<open>The dict comprehension of \<^verbatim>\<open>load_keys\<close>: every value is decrypted in turn, and
  the first exception ends the comprehension.\<close>

fun decrypt_items ::
  "fernet \<Rightarrow> (string \<times> json) list \<Rightarrow> (string \<times> string) list \<Rightarrow> world \<Rightarrow>
   (error + (string \<times> string) list) \<times> world" where
  "decrypt_items F [] acc w = (Inr acc, w)"
| "decrypt_items F ((provider, encrypted) # rest) acc w =
     (case decrypt_key F encrypted w of
        (Inl e, w1) \<Rightarrow> (Inl e, w1)
      | (Inr plain, w1) \<Rightarrow> decrypt_items F rest (AList.update provider plain acc) w1)"

text \<open>\<^verbatim>\<open>load_keys\<close>: the bare \<^verbatim>\<open>except\<close> turns every exception of the \<^verbatim>\<open>try\<close> block
  (a text that does not parse, a document that is not an object and has no \<^verbatim>\<open>items\<close>,
  a value that does not decrypt) into the empty dict.\<close>

definition load_keys_linux :: "fernet \<Rightarrow> world \<Rightarrow> (string \<times> string) list \<times> world" where
  "load_keys_linux F w =
     (case files w KEYS_FILE of
        None \<Rightarrow> ([], w)
      | Some (Malformed t) \<Rightarrow> ([], w)
      | Some (Doc (JObj data)) \<Rightarrow>
          (case decrypt_items F data [] w of
             (Inl e, w1) \<Rightarrow> ([], w1)
           | (Inr keys, w1) \<Rightarrow> (keys, w1))
      | Some (Doc _) \<Rightarrow> ([], w))"

text \<open>The dict comprehension of \<^verbatim>\<open>save_keys\<close>.\<close>

fun encrypt_items ::
  "fernet \<Rightarrow> (string \<times> string) list \<Rightarrow> (string \<times> json) list \<Rightarrow> world \<Rightarrow>
   (error + (string \<times> json) list) \<times> world" where
  "encrypt_items F [] acc w = (Inr acc, w)"
| "encrypt_items F ((provider, key) # rest) acc w =
     (case encrypt_key F key w of
        (Inl e, w1) \<Rightarrow> (Inl e, w1)
      | (Inr c, w1) \<Rightarrow> encrypt_items F rest (AList.update provider (JStr c) acc) w1)"

definition save_keys_linux ::
  "fernet \<Rightarrow> (string \<times> string) list \<Rightarrow> world \<Rightarrow> (error + unit) \<times> world" where
  "save_keys_linux F keys w =
     (case encrypt_items F keys [] w of
        (Inl e, w1) \<Rightarrow> (Inl e, w1)
      | (Inr encrypted, w1) \<Rightarrow> (Inr (), exec (save_keys_ops (JObj encrypted)) w1))"

definition add_key_linux ::
  "fernet \<Rightarrow> string \<Rightarrow> string \<Rightarrow> world \<Rightarrow> (error + unit) \<times> world" where
  "add_key_linux F provider api_key w =
     (let provider = lower provider
      in if provider \<notin> fst ` set PROVIDERS_linux then (Inl (SystemExit 1), w)
         else
           (let (keys, w1) = load_keys_linux F w
            in save_keys_linux F (AList.update provider api_key keys) w1))"

text \<open>\<^verbatim>\<open>remove_key\<close>: the name of the provider is looked up for the message after the
  vault was written.\<close>

definition remove_key_linux ::
  "fernet \<Rightarrow> string \<Rightarrow> world \<Rightarrow> (error + unit) \<times> world" where
  "remove_key_linux F provider w =
     (let provider = lower provider;
          (keys, w1) = load_keys_linux F w
      in if provider \<in> fst ` set keys
         then
           (case save_keys_linux F (AList.delete provider keys) w1 of
              (Inl e, w2) \<Rightarrow> (Inl e, w2)
            | (Inr u, w2) \<Rightarrow>
                (if provider \<in> fst ` set PROVIDERS_linux then (Inr (), w2)
                 else (Inl KeyError, w2)))
         else (Inr (), w1))"

text \<open>\<^verbatim>\<open>show_key\<close>: the line it prints.\<close>

definition show_key_linux :: "fernet \<Rightarrow> string \<Rightarrow> world \<Rightarrow> string \<times> world" where
  "show_key_linux F provider w =
     (let provider = lower provider;
          (keys, w1) = load_keys_linux F w
      in case map_of keys provider of
           None \<Rightarrow> (''No key found for '' @ provider, w1)
         | Some key \<Rightarrow> (provider @ '': '' @ masked key, w1))"

subsection \<open>The vault of \<^verbatim>\<open>clawapi.py\<close> and \<^verbatim>\<open>webui.py\<close>\<close>

text \<open>\<^verbatim>\<open>add_provider\<close> of \<^verbatim>\<open>clawapi.py\<close>: the right-hand side of
  \<^verbatim>\<open>keys[pid] = encrypt_key(api_key)\<close> is evaluated before the assignment.\<close>

definition add_provider_cli ::
  "fernet \<Rightarrow> string \<Rightarrow> string \<Rightarrow> world \<Rightarrow> (error + unit) \<times> world" where
  "add_provider_cli F pid api_key w =
     (if pid \<notin> fst ` set PROVIDERS_cli then (Inr (), w)
      else
        (let keys = load_keys w
         in case encrypt_key F api_key w of
              (Inl e, w1) \<Rightarrow> (Inl e, w1)
            | (Inr c, w1) \<Rightarrow>
                (case py_setitem keys pid (JStr c) of
                   Inl e \<Rightarrow> (Inl e, w1)
                 | Inr keys1 \<Rightarrow> (Inr (), save_keys keys1 w1))))"

text \<open>\<^verbatim>\<open>x[:10]\<close> on a JSON value: strings and lists can be sliced. (On a dict the
  exception is \<^verbatim>\<open>TypeError\<close> up to Python 3.11 and \<^verbatim>\<open>KeyError\<close> after.)\<close>

fun py_slice_to :: "int \<Rightarrow> json \<Rightarrow> error + json" where
  "py_slice_to n (JStr s) = Inr (JStr (slice_to n s))"
| "py_slice_to n (JArr xs) = Inr (JArr (slice_to n xs))"
| "py_slice_to n _ = Inl TypeError"

text \<open>\<^verbatim>\<open>show_key\<close> of \<^verbatim>\<open>clawapi.py\<close>: the line it prints. The formatted string is
  evaluated from left to right: the name of the provider, then
  \<^verbatim>\<open>decrypt_key(keys[pid][:10])\<close>, then \<^verbatim>\<open>decrypt_key(keys[pid])[-4:]\<close>.\<close>

definition show_key_cli :: "fernet \<Rightarrow> string \<Rightarrow> world \<Rightarrow> (error + string) \<times> world" where
  "show_key_cli F pid w =
     (let keys = load_keys w
      in case py_in pid keys of
           Inl e \<Rightarrow> (Inl e, w)
         | Inr False \<Rightarrow>
             (case map_of PROVIDERS_cli pid of
                None \<Rightarrow> (Inl KeyError, w)
              | Some info \<Rightarrow> (Inr (name info @ '': No key stored''), w))
         | Inr True \<Rightarrow>
             (case map_of PROVIDERS_cli pid of
                None \<Rightarrow> (Inl KeyError, w)
              | Some info \<Rightarrow>
                  (case and_then (py_getitem keys pid) (py_slice_to 10) of
                     Inl e \<Rightarrow> (Inl e, w)
                   | Inr head \<Rightarrow>
                       (case decrypt_key F head w of
                          (Inl e, w1) \<Rightarrow> (Inl e, w1)
                        | (Inr shown, w1) \<Rightarrow>
                            (case py_getitem keys pid of
                               Inl e \<Rightarrow> (Inl e, w1)
                             | Inr whole \<Rightarrow>
                                 (case decrypt_key F whole w1 of
                                    (Inl e, w2) \<Rightarrow> (Inl e, w2)
                                  | (Inr plain, w2) \<Rightarrow>
                                      (Inr (name info @ '': '' @ shown @ ''...'' @
                                            slice_from (- 4) plain), w2)))))))"

subsection \<open>The selection store\<close>

text \<open>The two statements
  \<^verbatim>\<open>if 'selected_models' not in config: config['selected_models'] = {}\<close> and
  \<^verbatim>\<open>config['selected_models'][provider] = model\<close>, which \<^verbatim>\<open>set_model\<close> of both files
  and \<^verbatim>\<open>add_key\<close> of \<^verbatim>\<open>webui.py\<close> share. The result is \<^verbatim>\<open>config\<close> afterwards.\<close>

definition select_model :: "json \<Rightarrow> string \<Rightarrow> json \<Rightarrow> error + json" where
  "select_model config provider model =
     and_then (py_in ''selected_models'' config) (\<lambda>present.
     and_then (if \<not> present then py_setitem config ''selected_models'' (JObj [])
               else Inr config) (\<lambda>config1.
     and_then (py_getitem config1 ''selected_models'') (\<lambda>selected.
     and_then (py_setitem selected provider model) (\<lambda>selected1.
     py_setitem config1 ''selected_models'' selected1))))"


subsection \<open>Writing into OpenClaw's configuration\<close>

definition openclaw_write_ops :: "json \<Rightarrow> fs_op list" where
  "openclaw_write_ops config = [Open_w OPENCLAW_CONFIG, Dump OPENCLAW_CONFIG config]"

text \<open>The two assignments \<^verbatim>\<open>config['defaultModel'] = model\<close> and
  \<^verbatim>\<open>config['model'] = model\<close>.\<close>

definition set_default_model :: "json \<Rightarrow> json \<Rightarrow> error + json" where
  "set_default_model config model =
     and_then (py_setitem config ''defaultModel'' model) (\<lambda>config1.
     py_setitem config1 ''model'' model)"

text \<open>\<^verbatim>\<open>update_openclaw_model\<close> of \<^verbatim>\<open>webui.py\<close>.\<close>

definition update_openclaw_model :: "json \<Rightarrow> world \<Rightarrow> (error + bool) \<times> world" where
  "update_openclaw_model model w =
     (case files w OPENCLAW_CONFIG of
        None \<Rightarrow> (Inr False, w)
      | Some c \<Rightarrow>
          (case and_then (json_load c) (\<lambda>config. set_default_model config model) of
             Inl e \<Rightarrow> (Inl e, w)
           | Inr config \<Rightarrow> (Inr True, exec (openclaw_write_ops config) w)))"

text \<open>\<^verbatim>\<open>get_openclaw_config_path\<close> of \<^verbatim>\<open>clawapi-linux.py\<close>: the one candidate path, when
  the file exists.\<close>

definition get_openclaw_config_path :: "world \<Rightarrow> path option" where
  "get_openclaw_config_path w =
     (if files w OPENCLAW_CONFIG \<noteq> None then Some OPENCLAW_CONFIG else None)"

text \<open>The statements of \<^verbatim>\<open>sync_to_openclaw\<close> between reading and writing the
  configuration.\<close>

definition upsert_provider :: "json \<Rightarrow> string \<Rightarrow> string \<Rightarrow> string \<Rightarrow> error + json" where
  "upsert_provider config provider model api_key =
     and_then (py_in ''models'' config) (\<lambda>present.
     and_then (if \<not> present then py_setitem config ''models'' (JObj []) else Inr config)
       (\<lambda>config1.
     and_then (py_getitem config1 ''models'') (\<lambda>models.
     and_then (py_in ''providers'' models) (\<lambda>present1.
     and_then (if \<not> present1 then py_setitem models ''providers'' (JObj [])
               else Inr models) (\<lambda>models1.
     and_then (py_getitem models1 ''providers'') (\<lambda>providers.
     and_then (py_setitem providers (provider @ '':default'')
                 (JObj [(''provider'', JStr provider), (''model'', JStr model),
                        (''apiKey'', JStr api_key)])) (\<lambda>providers1.
     and_then (py_setitem models1 ''providers'' providers1) (\<lambda>models2.
     py_setitem config1 ''models'' models2))))))))"

text \<open>\<^verbatim>\<open>sync_to_openclaw\<close> of \<^verbatim>\<open>clawapi-linux.py\<close>: a configuration that does not
  parse is taken as the empty dict.\<close>

definition sync_to_openclaw ::
  "string \<Rightarrow> string \<Rightarrow> string \<Rightarrow> world \<Rightarrow> (error + bool) \<times> world" where
  "sync_to_openclaw provider model api_key w =
     (case get_openclaw_config_path w of
        None \<Rightarrow> (Inr False, w)
      | Some config_path \<Rightarrow>
          (let config = (case files w config_path of
                           None \<Rightarrow> JObj []
                         | Some c \<Rightarrow> (case json_load c of Inl e \<Rightarrow> JObj [] | Inr j \<Rightarrow> j))
           in case upsert_provider config provider model api_key of
                Inl e \<Rightarrow> (Inl e, w)
              | Inr config1 \<Rightarrow> (Inr True, exec (openclaw_write_ops config1) w)))"

text \<open>\<^verbatim>\<open>set_model\<close> of \<^verbatim>\<open>clawapi-linux.py\<close>; \<open>None\<close> is the model left out on the
  command line.\<close>

definition set_model_linux ::
  "fernet \<Rightarrow> string \<Rightarrow> string option \<Rightarrow> world \<Rightarrow> (error + unit) \<times> world" where
  "set_model_linux F provider model w =
     (let provider = lower provider
      in case map_of PROVIDERS_linux provider of
           None \<Rightarrow> (Inl (SystemExit 1), w)
         | Some info \<Rightarrow>
             (let (keys, w1) = load_keys_linux F w
              in case map_of keys provider of
                   None \<Rightarrow> (Inl (SystemExit 1), w1)
                 | Some key \<Rightarrow>
                     (let model1 = (case model of None \<Rightarrow> default_model info | Some m \<Rightarrow> m)
                      in case sync_to_openclaw provider model1 key w1 of
                           (Inl e, w2) \<Rightarrow> (Inl e, w2)
                         | (Inr synced, w2) \<Rightarrow> (Inr (), w2))))"

text \<open>\<^verbatim>\<open>set_model\<close> of \<^verbatim>\<open>clawapi.py\<close>: the selection is saved first; every exception of
  the update of OpenClaw's configuration is caught and reported in the message.\<close>

definition set_model_cli :: "string \<Rightarrow> string \<Rightarrow> world \<Rightarrow> (error + unit) \<times> world" where
  "set_model_cli pid model w =
     (case and_then (load_config w) (\<lambda>config. select_model config pid (JStr model)) of
        Inl e \<Rightarrow> (Inl e, w)
      | Inr config \<Rightarrow>
          (let w1 = save_config config w
           in case files w1 OPENCLAW_CONFIG of
                None \<Rightarrow> (Inr (), w1)
              | Some c \<Rightarrow>
                  (case and_then (json_load c) (\<lambda>oc. set_default_model oc (JStr model)) of
                     Inl e \<Rightarrow> (Inr (), w1)
                   | Inr oc \<Rightarrow> (Inr (), exec (openclaw_write_ops oc) w1))))"

subsection \<open>The web console (\<^verbatim>\<open>webui.py\<close>)\<close>

definition log_activity_ops :: "string \<Rightarrow> string \<Rightarrow> string \<Rightarrow> fs_op list" where
  "log_activity_ops timestamp msg lvl = [Append_log (log_line timestamp msg lvl)]"

definition log_activity :: "string \<Rightarrow> string \<Rightarrow> world \<Rightarrow> world" where
  "log_activity msg lvl w = exec (log_activity_ops (clock w) msg lvl) w"

text \<open>\<^verbatim>\<open>PROVIDERS.get(provider, {}).get('name', provider)\<close>.\<close>

definition provider_name_web :: "string \<Rightarrow> string" where
  "provider_name_web provider =
     (case map_of PROVIDERS_web provider of None \<Rightarrow> provider | Some info \<Rightarrow> name info)"

text \<open>A field of the submitted form is a string, or \<open>None\<close> when the request does not
  have it; \<open>form_value\<close> is the value as it is stored and \<open>form_text\<close> as it is
  formatted into a message.\<close>

definition form_value :: "string option \<Rightarrow> json" where
  "form_value v = (case v of None \<Rightarrow> JNull | Some s \<Rightarrow> JStr s)"

definition form_text :: "string option \<Rightarrow> string" where
  "form_text v = (case v of None \<Rightarrow> ''None'' | Some s \<Rightarrow> s)"

text \<open>The route \<^verbatim>\<open>/set_model\<close>. The provider is a field the form always has.\<close>

definition set_model_web ::
  "string \<Rightarrow> string option \<Rightarrow> world \<Rightarrow> (error + unit) \<times> world" where
  "set_model_web provider model w =
     (case and_then (load_config w) (\<lambda>config. select_model config provider (form_value model)) of
        Inl e \<Rightarrow> (Inl e, w)
      | Inr config \<Rightarrow>
          (let w1 = save_config config w
           in case update_openclaw_model (form_value model) w1 of
                (Inl e, w2) \<Rightarrow> (Inl e, w2)
              | (Inr True, w2) \<Rightarrow>
                  (Inr (), log_activity (''Set default model to '' @ form_text model @ '' ('' @
                                          provider_name_web provider @ '')'') ''success'' w2)
              | (Inr False, w2) \<Rightarrow> (Inr (), w2)))"

text \<open>The route \<^verbatim>\<open>/add_key\<close>: the vault entry is the text \<^verbatim>\<open>configured\<close>.\<close>

definition add_key_web :: "string \<Rightarrow> string \<Rightarrow> world \<Rightarrow> (error + unit) \<times> world" where
  "add_key_web provider default_model_field w =
     (let keys = load_keys w
      in case load_config w of
           Inl e \<Rightarrow> (Inl e, w)
         | Inr config \<Rightarrow>
             (case map_of PROVIDERS_web provider of
                None \<Rightarrow> (Inr (), w)
              | Some info \<Rightarrow>
                  (case and_then (py_setitem keys provider (JStr ''configured'')) (\<lambda>keys1.
                        and_then (if default_model_field \<noteq> []
                                  then select_model config provider (JStr default_model_field)
                                  else Inr config) (\<lambda>config1. Inr (keys1, config1))) of
                     Inl e \<Rightarrow> (Inl e, w)
                   | Inr (keys1, config1) \<Rightarrow>
                       (Inr (), log_activity (''Added provider: '' @ name info) ''success''
                                  (save_config config1 (save_keys keys1 w))))))"


text \<open>The route \<^verbatim>\<open>/reset\<close>.\<close>

definition reset_all :: "world \<Rightarrow> world" where
  "reset_all w =
     log_activity ''Reset all settings'' ''info''
       (save_config (JObj [(''selected_models'', JObj [])]) (save_keys (JObj []) w))"


subsection \<open>States and documents that the properties speak about\<close>

text \<open>The master key can be used: the key file does not exist yet (a key will be
  generated), or it holds a key that the cipher accepts.\<close>

definition key_usable :: "fernet \<Rightarrow> world \<Rightarrow> bool" where
  "key_usable F w = (case master_key_file w of None \<Rightarrow> True | Some key \<Rightarrow> valid_key F key)"

text \<open>An entry of the keys file holds a credential encrypted under the master key
  \<open>mk\<close>.\<close>

definition encrypted_with ::
  "fernet \<Rightarrow> bytes \<Rightarrow> string \<times> json \<Rightarrow> string \<times> string \<Rightarrow> bool" where
  "encrypted_with F mk e k \<longleftrightarrow>
     fst e = fst k \<and> (\<exists>n. snd e = JStr (b64encode (encrypt F mk n (snd k))))"

text \<open>Two JSON documents are equal: two objects are equal when they have the same keys
  with equal values, in whatever order.\<close>

primrec json_eq :: "json \<Rightarrow> json \<Rightarrow> bool" where
  "json_eq JNull y = (y = JNull)"
| "json_eq (JBool b) y = (y = JBool b)"
| "json_eq (JNum n) y = (y = JNum n)"
| "json_eq (JFloat r) y = (y = JFloat r)"
| "json_eq (JStr s) y = (y = JStr s)"
| "json_eq (JArr xs) y =
     (case y of JArr ys \<Rightarrow> list_all2 (\<lambda>f v. f v) (map json_eq xs) ys | _ \<Rightarrow> False)"
| "json_eq (JObj d) y =
     (case y of
        JObj e \<Rightarrow>
          fst ` set d = fst ` set e \<and>
          list_all (\<lambda>(k, f). case map_of e k of None \<Rightarrow> False | Some v \<Rightarrow> f v)
            (map (map_prod id json_eq) d)
      | _ \<Rightarrow> False)"

text \<open>
  A cipher to run the model on concrete inputs, standing in for the library: a key is
  accepted when it has 8 bytes, a token is the key followed by the plain text, and a
  token decrypts when it starts with the key.
\<close>

definition test_cipher :: fernet where
  "test_cipher =
     \<lparr>valid_key = (\<lambda>key. length key = 8),
      generate_key = (\<lambda>n. replicate 8 (char_of (65 + n mod 26))),
      encrypt = (\<lambda>key n plain. key @ plain),
      decrypt = (\<lambda>key token.
        if take (length key) token = key then Some (drop (length key) token) else None)\<rparr>"

text \<open>A machine on which nothing is stored yet.\<close>

definition fresh_world :: world where
  "fresh_world =
     \<lparr>files = (\<lambda>p. None), master_key_file = None, activity_log = None, rng = 0,
      clock = ''2024-01-01 12:00:00''\<rparr>"

text \<open>A vault with one entry that decrypts and one whose text is the first ten
  characters of a valid entry, under the master key the test cipher generates first.\<close>

definition vault_with_truncated_entry :: world where
  "vault_with_truncated_entry =
     fresh_world
       \<lparr>files := (\<lambda>p. None)(KEYS_FILE \<mapsto> Doc (JObj
           [(''openai'', JStr (b64encode (replicate 8 (CHR ''A'') @ ''key123''))),
            (''anthropic'',
             JStr (slice_to 10 (b64encode (replicate 8 (CHR ''A'') @ ''key456''))))])),
        master_key_file := Some (replicate 8 (CHR ''A''))\<rparr>"

text \<open>A machine on which only OpenClaw's configuration exists, holding the object
  \<^verbatim>\<open>{"foo": 1}\<close>.\<close>

definition openclaw_foo :: world where
  "openclaw_foo =
     fresh_world\<lparr>files := (\<lambda>p. None)(OPENCLAW_CONFIG \<mapsto> Doc (JObj [(''foo'', JNum 1)]))\<rparr>"

text \<open>The document the end-to-end scenario of the specification expects.\<close>

definition expected_config :: json where
  "expected_config =
     JObj [(''foo'', JNum 1),
           (''model'', JStr ''claude-sonnet-4-6''),
           (''defaultModel'', JStr ''claude-sonnet-4-6''),
           (''models'', JObj [(''providers'', JObj [(''anthropic:default'',
              JObj [(''provider'', JStr ''anthropic''),
                    (''model'', JStr ''claude-sonnet-4-6''),
                    (''apiKey'', JStr ''key123'')])])])]"

text \<open>OpenClaw's configuration can be updated: the file does not exist (there is nothing
  to update), or it holds an object.\<close>

definition openclaw_ok :: "world \<Rightarrow> bool" where
  "openclaw_ok w =
     (case files w OPENCLAW_CONFIG of
        None \<Rightarrow> True
      | Some (Doc (JObj d)) \<Rightarrow> True
      | Some _ \<Rightarrow> False)"

text \<open>The entry \<^verbatim>\<open>sync_to_openclaw\<close> writes for a provider.\<close>

definition provider_entry :: "string \<Rightarrow> string \<Rightarrow> string \<Rightarrow> json" where
  "provider_entry provider model api_key =
     JObj [(''provider'', JStr provider), (''model'', JStr model), (''apiKey'', JStr api_key)]"

text \<open>The selection store can be read and written: \<^verbatim>\<open>config.json\<close> does not exist, or
  holds an object whose \<^verbatim>\<open>selected_models\<close>, when present, is an object.\<close>

definition selection_store_ok :: "world \<Rightarrow> bool" where
  "selection_store_ok w =
     (case files w CONFIG_FILE of
        None \<Rightarrow> True
      | Some (Doc (JObj d)) \<Rightarrow>
          (case map_of d ''selected_models'' of
             None \<Rightarrow> True
           | Some (JObj s) \<Rightarrow> True
           | Some _ \<Rightarrow> False)
      | Some _ \<Rightarrow> False)"

text \<open>The model selected for a provider, as \<^verbatim>\<open>config.json\<close> has it.\<close>

definition selection :: "world \<Rightarrow> string \<Rightarrow> json option" where
  "selection w provider =
     (case files w CONFIG_FILE of
        Some (Doc (JObj d)) \<Rightarrow>
          (case map_of d ''selected_models'' of
             Some (JObj s) \<Rightarrow> map_of s provider
           | _ \<Rightarrow> None)
      | _ \<Rightarrow> None)"



text \<open>A crash after the first \<open>n\<close> steps of a write: only these steps have taken
  place.\<close>

definition crash_after :: "nat \<Rightarrow> fs_op list \<Rightarrow> world \<Rightarrow> world" where
  "crash_after n ops w = exec (take n ops) w"

section \<open>Properties\<close>

subsection \<open>Reading the activity log\<close>

text \<open>
  Claim C9. The claim: \<^verbatim>\<open>recent(N)\<close> returns the last entries of the log, newest first,
  each line parsed into its time stamp, its level and its message. On the line that
  \<^verbatim>\<open>log_activity\<close> itself writes for the message \<^verbatim>\<open>Added provider: OpenAI\<close> at level
  \<^verbatim>\<open>success\<close>, \<^verbatim>\<open>get_activity_logs\<close> returns an entry whose time is the time stamp
  followed by the level, and whose level is \<^verbatim>\<open>info\<close>: the reader splits at the first
  closing bracket, which is the one that ends the level. And with the limit 0 the
  slice \<^verbatim>\<open>[-0:]\<close> is the whole list: both entries of a log of two lines are returned.
\<close>

theorem get_activity_logs_level_in_time:
  "get_activity_logs
     (Some (log_line ''2024-01-01 12:00:00'' ''Added provider: OpenAI'' ''success'')) 50 =
   [\<lparr>time = ''2024-01-01 12:00:00 SUCCESS'', message = ''Added provider: OpenAI'',
     level = ''info''\<rparr>] \<and>
   length (get_activity_logs
     (Some (log_line ''2024-01-01 12:00:00'' ''a'' ''info'' @
            log_line ''2024-01-01 12:00:01'' ''b'' ''info'')) 0) = 2"
  by code_simp

subsection \<open>Base64 decodes what it encodes\<close>

lemma b64_value_char: "n < 64 \<Longrightarrow> b64_value (b64_char n) = Some n"
  unfolding b64_value_def b64_char_def Let_def
  apply (simp split: if_splits)
  apply arith
  done

lemma b64_pad_value: "b64_value (CHR ''='') = None"
  by (simp add: b64_value_def)

lemma b64_char_not_pad: "n < 64 \<Longrightarrow> b64_char n \<noteq> CHR ''=''"
  using b64_value_char [of n] b64_pad_value by auto

lemma a2b_step0:
  "v < 64 \<Longrightarrow> a2b_base64 0 l pads acc (b64_char v # cs) = a2b_base64 1 v 0 acc cs"
  by (simp add: b64_value_char b64_char_not_pad)

lemma a2b_step1:
  "v < 64 \<Longrightarrow> a2b_base64 1 l pads acc (b64_char v # cs) =
     a2b_base64 2 (v mod 16) 0 (acc @ [char_of (l * 4 + v div 16)]) cs"
  by (simp add: b64_value_char b64_char_not_pad)

lemma a2b_step2:
  "v < 64 \<Longrightarrow> a2b_base64 2 l pads acc (b64_char v # cs) =
     a2b_base64 3 (v mod 4) 0 (acc @ [char_of (l * 16 + v div 4)]) cs"
  by (simp add: b64_value_char b64_char_not_pad)

lemma a2b_step3:
  "v < 64 \<Longrightarrow> a2b_base64 3 l pads acc (b64_char v # cs) =
     a2b_base64 0 0 0 (acc @ [char_of (l * 64 + v)]) cs"
  by (simp add: b64_value_char b64_char_not_pad)

lemma a2b_pad2: "a2b_base64 2 l 0 acc (CHR ''='' # CHR ''='' # cs) = Inr acc"
  by simp

lemma a2b_pad3: "a2b_base64 3 l 0 acc (CHR ''='' # cs) = Inr acc"
  by simp

lemma b64_arith1: "y < 256 \<Longrightarrow> (x div 4) * 4 + ((x mod 4) * 16 + y div 16) div 16 = (x::nat)"
  by simp

lemma b64_arith2:
  assumes "y < 256" and "z < 256"
  shows "((x mod 4) * 16 + y div 16) mod 16 * 16 + ((y mod 16) * 4 + z div 64) div 4 = (y::nat)"
proof -
  have a: "y div 16 < 16" using assms by simp
  have b: "z div 64 < 4" using assms by simp
  have "((x mod 4) * 16 + y div 16) mod 16 = y div 16" using a by simp
  moreover have "((y mod 16) * 4 + z div 64) div 4 = y mod 16" using b by simp
  ultimately show ?thesis by simp
qed

lemma b64_arith3:
  assumes "z < 256"
  shows "((y mod 16) * 4 + z div 64) mod 4 * 64 + z mod 64 = (z::nat)"
proof -
  have b: "z div 64 < 4" using assms by simp
  have "((y mod 16) * 4 + z div 64) mod 4 = z div 64" using b by simp
  then show ?thesis by simp
qed

lemma b64_arith4:
  assumes "y < 256"
  shows "((x mod 4) * 16 + y div 16) mod 16 * 16 + ((y mod 16) * 4) div 4 = (y::nat)"
proof -
  have a: "y div 16 < 16" using assms by simp
  have "((x mod 4) * 16 + y div 16) mod 16 = y div 16" using a by simp
  then show ?thesis by simp
qed

lemma a2b_quad:
  assumes x: "x < 256" and y: "y < 256" and z: "z < 256"
  shows "a2b_base64 0 0 0 acc
           (b64_char (x div 4) # b64_char ((x mod 4) * 16 + y div 16) #
            b64_char ((y mod 16) * 4 + z div 64) # b64_char (z mod 64) # cs) =
         a2b_base64 0 0 0 (acc @ [char_of x, char_of y, char_of z]) cs"
proof -
  let ?p = "x div 4" and ?q = "(x mod 4) * 16 + y div 16"
  let ?r = "(y mod 16) * 4 + z div 64" and ?s = "z mod 64"
  have p: "?p < 64" using x by simp
  have q: "?q < 64" using y by auto
  have r: "?r < 64" using z by auto
  have s: "?s < 64" by simp
  have "a2b_base64 0 0 0 acc (b64_char ?p # b64_char ?q # b64_char ?r # b64_char ?s # cs) =
        a2b_base64 1 ?p 0 acc (b64_char ?q # b64_char ?r # b64_char ?s # cs)"
    by (rule a2b_step0 [OF p])
  also have "\<dots> = a2b_base64 2 (?q mod 16) 0 (acc @ [char_of (?p * 4 + ?q div 16)])
                     (b64_char ?r # b64_char ?s # cs)"
    by (rule a2b_step1 [OF q])
  also have "\<dots> = a2b_base64 3 (?r mod 4) 0
                     ((acc @ [char_of (?p * 4 + ?q div 16)]) @
                      [char_of (?q mod 16 * 16 + ?r div 4)])
                     (b64_char ?s # cs)"
    by (rule a2b_step2 [OF r])
  also have "\<dots> = a2b_base64 0 0 0
                     (((acc @ [char_of (?p * 4 + ?q div 16)]) @
                       [char_of (?q mod 16 * 16 + ?r div 4)]) @
                      [char_of (?r mod 4 * 64 + ?s)]) cs"
    by (rule a2b_step3 [OF s])
  finally show ?thesis
    by (simp only: b64_arith1 [OF y] b64_arith2 [OF y z] b64_arith3 [OF z] append_assoc
        append_Cons append_Nil)
qed

lemma a2b_pair:
  assumes x: "x < 256" and y: "y < 256"
  shows "a2b_base64 0 0 0 acc
           [b64_char (x div 4), b64_char ((x mod 4) * 16 + y div 16),
            b64_char ((y mod 16) * 4), CHR ''=''] =
         Inr (acc @ [char_of x, char_of y])"
proof -
  let ?p = "x div 4" and ?q = "(x mod 4) * 16 + y div 16" and ?r = "(y mod 16) * 4"
  have p: "?p < 64" using x by simp
  have q: "?q < 64" using y by auto
  have r: "?r < 64" by auto
  have "a2b_base64 0 0 0 acc [b64_char ?p, b64_char ?q, b64_char ?r, CHR ''=''] =
        a2b_base64 1 ?p 0 acc [b64_char ?q, b64_char ?r, CHR ''='']"
    by (rule a2b_step0 [OF p])
  also have "\<dots> = a2b_base64 2 (?q mod 16) 0 (acc @ [char_of (?p * 4 + ?q div 16)])
                     [b64_char ?r, CHR ''='']"
    by (rule a2b_step1 [OF q])
  also have "\<dots> = a2b_base64 3 (?r mod 4) 0
                     ((acc @ [char_of (?p * 4 + ?q div 16)]) @
                      [char_of (?q mod 16 * 16 + ?r div 4)]) [CHR ''='']"
    by (rule a2b_step2 [OF r])
  also have "\<dots> = Inr ((acc @ [char_of (?p * 4 + ?q div 16)]) @
                          [char_of (?q mod 16 * 16 + ?r div 4)])"
    by (rule a2b_pad3)
  finally show ?thesis
    by (simp only: b64_arith1 [OF y] b64_arith4 [OF y] append_assoc append_Cons append_Nil)
qed

lemma a2b_single:
  assumes x: "x < 256"
  shows "a2b_base64 0 0 0 acc
           [b64_char (x div 4), b64_char ((x mod 4) * 16), CHR ''='', CHR ''=''] =
         Inr (acc @ [char_of x])"
proof -
  let ?p = "x div 4" and ?q = "(x mod 4) * 16"
  have p: "?p < 64" using x by simp
  have q: "?q < 64" by auto
  have e: "?p * 4 + ?q div 16 = x" by simp
  have "a2b_base64 0 0 0 acc [b64_char ?p, b64_char ?q, CHR ''='', CHR ''=''] =
        a2b_base64 1 ?p 0 acc [b64_char ?q, CHR ''='', CHR ''='']"
    by (rule a2b_step0 [OF p])
  also have "\<dots> = a2b_base64 2 (?q mod 16) 0 (acc @ [char_of (?p * 4 + ?q div 16)])
                     [CHR ''='', CHR ''='']"
    by (rule a2b_step1 [OF q])
  also have "\<dots> = Inr (acc @ [char_of (?p * 4 + ?q div 16)])"
    by (rule a2b_pad2)
  finally show ?thesis by (simp only: e)
qed

lemma a2b_encode: "a2b_base64 0 0 0 acc (b64encode bs) = Inr (acc @ bs)"
proof (induction bs arbitrary: acc rule: b64encode.induct)
  case 1
  show ?case by simp
next
  case (2 a)
  have x: "(of_char a :: nat) < 256" by simp
  show ?case
    using a2b_single [OF x, of acc] by (simp add: Let_def del: a2b_base64.simps)
next
  case (3 a b)
  have x: "(of_char a :: nat) < 256" and y: "(of_char b :: nat) < 256" by simp_all
  show ?case
    using a2b_pair [OF x y, of acc] by (simp add: Let_def del: a2b_base64.simps)
next
  case (4 a b c rest)
  have x: "(of_char a :: nat) < 256" and y: "(of_char b :: nat) < 256"
    and z: "(of_char c :: nat) < 256" by simp_all
  show ?case
    using a2b_quad [OF x y z, of acc "b64encode rest"] "4.IH"
    by (simp add: Let_def del: a2b_base64.simps)
qed

lemma b64decode_b64encode: "b64decode (b64encode bs) = Inr bs"
  using a2b_encode [of "[]" bs] by (simp add: b64decode_def)

subsection \<open>The master key and the cipher\<close>

lemma test_cipher_ok: "fernet_ok test_cipher"
  by (simp add: fernet_ok_def test_cipher_def)

lemma get_master_key_stored:
  "master_key_file w = Some mk \<Longrightarrow> get_master_key F w = (mk, w)"
  by (simp add: get_master_key_def)

lemma get_master_key_usable:
  assumes "fernet_ok F" and "key_usable F w"
  shows "\<exists>mk w1. get_master_key F w = (mk, w1) \<and> valid_key F mk \<and>
           master_key_file w1 = Some mk \<and> files w1 = files w \<and>
           activity_log w1 = activity_log w \<and> clock w1 = clock w"
  using assms
  by (auto simp: get_master_key_def key_usable_def fernet_ok_def exec_def Let_def
      split: option.splits)

lemma encrypt_key_stored:
  assumes "master_key_file w = Some mk" and "valid_key F mk"
  shows "encrypt_key F key w =
           (Inr (b64encode (encrypt F mk (rng w) key)), w\<lparr>rng := Suc (rng w)\<rparr>)"
  using assms by (simp add: encrypt_key_def get_master_key_stored)

lemma decrypt_key_stored:
  assumes "fernet_ok F" and "master_key_file w = Some mk" and "valid_key F mk"
  shows "decrypt_key F (JStr (b64encode (encrypt F mk n plain))) w = (Inr plain, w)"
  using assms
  by (simp add: decrypt_key_def get_master_key_stored b64decode_b64encode fernet_ok_def)

lemma encrypt_key_usable:
  assumes ok: "fernet_ok F" and usable: "key_usable F w"
  shows "\<exists>mk n w1. encrypt_key F key w = (Inr (b64encode (encrypt F mk n key)), w1) \<and>
           valid_key F mk \<and> master_key_file w1 = Some mk \<and> files w1 = files w \<and>
           activity_log w1 = activity_log w \<and> clock w1 = clock w"
proof -
  from get_master_key_usable [OF ok usable] obtain mk w0 where
    g: "get_master_key F w = (mk, w0)" and v: "valid_key F mk"
    and m: "master_key_file w0 = Some mk" and f: "files w0 = files w"
    and a: "activity_log w0 = activity_log w" and c: "clock w0 = clock w"
    by blast
  have "encrypt_key F key w =
          (Inr (b64encode (encrypt F mk (rng w0) key)), w0\<lparr>rng := Suc (rng w0)\<rparr>)"
    using g v by (simp add: encrypt_key_def)
  then show ?thesis using v m f a c by auto
qed

lemma decrypt_encrypt_key:
  assumes ok: "fernet_ok F" and usable: "key_usable F w"
  shows "\<exists>c w1. encrypt_key F key w = (Inr c, w1) \<and> decrypt_key F (JStr c) w1 = (Inr key, w1)"
proof -
  from encrypt_key_usable [OF ok usable, of key] obtain mk n w1 where
    e: "encrypt_key F key w = (Inr (b64encode (encrypt F mk n key)), w1)"
    and v: "valid_key F mk" and m: "master_key_file w1 = Some mk"
    by blast
  from decrypt_key_stored [OF ok m v, of n key] e show ?thesis by simp
qed

subsection \<open>Saving and loading the Linux vault\<close>

lemma update_fresh: "p \<notin> fst ` set acc \<Longrightarrow> AList.update p v acc = acc @ [(p, v)]"
  by (induction acc) auto

lemma encrypt_items_stored:
  assumes "master_key_file w = Some mk" and "valid_key F mk"
    and "distinct (map fst keys)" and "fst ` set acc \<inter> fst ` set keys = {}"
  shows "\<exists>enc w1. encrypt_items F keys acc w = (Inr (acc @ enc), w1) \<and>
           list_all2 (encrypted_with F mk) enc keys \<and>
           master_key_file w1 = Some mk \<and> files w1 = files w \<and>
           activity_log w1 = activity_log w \<and> clock w1 = clock w"
  using assms
proof (induction keys arbitrary: acc w)
  case Nil
  then show ?case by simp
next
  case (Cons k keys)
  obtain p m where k: "k = (p, m)" by (cases k)
  let ?c = "b64encode (encrypt F mk (rng w) m)"
  let ?w = "w\<lparr>rng := Suc (rng w)\<rparr>"
  have e: "encrypt_key F m w = (Inr ?c, ?w)"
    using Cons.prems(1,2) by (rule encrypt_key_stored)
  have fresh: "p \<notin> fst ` set acc" using Cons.prems(4) k by auto
  have u: "AList.update p (JStr ?c) acc = acc @ [(p, JStr ?c)]"
    using fresh by (rule update_fresh)
  have d: "distinct (map fst keys)" using Cons.prems(3) by simp
  have i: "fst ` set (acc @ [(p, JStr ?c)]) \<inter> fst ` set keys = {}"
    using Cons.prems(3,4) k by auto
  have mk: "master_key_file ?w = Some mk" using Cons.prems(1) by simp
  from Cons.IH [OF mk Cons.prems(2) d i] obtain enc w1 where
    r: "encrypt_items F keys (acc @ [(p, JStr ?c)]) ?w = (Inr ((acc @ [(p, JStr ?c)]) @ enc), w1)"
    and l: "list_all2 (encrypted_with F mk) enc keys"
    and s: "master_key_file w1 = Some mk" "files w1 = files ?w"
      "activity_log w1 = activity_log ?w" "clock w1 = clock ?w"
    by blast
  have "encrypt_items F (k # keys) acc w = (Inr (acc @ ((p, JStr ?c) # enc)), w1)"
    using e u r k by simp
  moreover have "list_all2 (encrypted_with F mk) ((p, JStr ?c) # enc) (k # keys)"
    using l k by (auto simp: encrypted_with_def)
  ultimately show ?case using s by auto
qed

lemma decrypt_items_stored:
  assumes "fernet_ok F" and "master_key_file w = Some mk" and "valid_key F mk"
    and "list_all2 (encrypted_with F mk) enc keys"
    and "distinct (map fst keys)" and "fst ` set acc \<inter> fst ` set keys = {}"
  shows "decrypt_items F enc acc w = (Inr (acc @ keys), w)"
  using assms(4,5,6)
proof (induction enc keys arbitrary: acc rule: list_all2_induct)
  case Nil
  then show ?case by simp
next
  case (Cons e enc k keys)
  obtain p m where k: "k = (p, m)" by (cases k)
  from Cons.hyps(1) k obtain n where e: "e = (p, JStr (b64encode (encrypt F mk n m)))"
    by (cases e) (auto simp: encrypted_with_def)
  have dk: "decrypt_key F (JStr (b64encode (encrypt F mk n m))) w = (Inr m, w)"
    using assms(1,2,3) by (rule decrypt_key_stored)
  have fresh: "p \<notin> fst ` set acc" using Cons.prems(2) k by auto
  have u: "AList.update p m acc = acc @ [(p, m)]" using fresh by (rule update_fresh)
  have d: "distinct (map fst keys)" using Cons.prems(1) by simp
  have i: "fst ` set (acc @ [(p, m)]) \<inter> fst ` set keys = {}"
    using Cons.prems(1,2) k by auto
  from Cons.IH [OF d i] have "decrypt_items F enc (acc @ [(p, m)]) w = (Inr ((acc @ [(p, m)]) @ keys), w)" .
  then show ?case using e dk u k by simp
qed

lemma save_keys_linux_usable:
  assumes ok: "fernet_ok F" and usable: "key_usable F w" and d: "distinct (map fst keys)"
  shows "\<exists>enc w1. save_keys_linux F keys w = (Inr (), w1) \<and>
           files w1 = (files w)(KEYS_FILE \<mapsto> Doc (JObj enc)) \<and>
           (keys = [] \<and> enc = [] \<and> master_key_file w1 = master_key_file w \<or>
            (\<exists>mk. valid_key F mk \<and> master_key_file w1 = Some mk \<and>
                  list_all2 (encrypted_with F mk) enc keys)) \<and>
           activity_log w1 = activity_log w \<and> clock w1 = clock w"
proof (cases keys)
  case Nil
  then show ?thesis
    by (auto simp: save_keys_linux_def save_keys_ops_def exec_def intro: exI [of _ "[]"])
next
  case (Cons k rest)
  obtain p m where k: "k = (p, m)" by (cases k)
  from encrypt_key_usable [OF ok usable, of m] obtain mk n w0 where
    e: "encrypt_key F m w = (Inr (b64encode (encrypt F mk n m)), w0)"
    and v: "valid_key F mk" and s: "master_key_file w0 = Some mk" "files w0 = files w"
      "activity_log w0 = activity_log w" "clock w0 = clock w"
    by blast
  let ?c = "b64encode (encrypt F mk n m)"
  have dr: "distinct (map fst rest)" using d Cons by simp
  have i: "fst ` set [(p, JStr ?c)] \<inter> fst ` set rest = {}" using d Cons k by auto
  from encrypt_items_stored [OF s(1) v dr i] obtain enc w1 where
    r: "encrypt_items F rest [(p, JStr ?c)] w0 = (Inr ([(p, JStr ?c)] @ enc), w1)"
    and l: "list_all2 (encrypted_with F mk) enc rest"
    and t: "master_key_file w1 = Some mk" "files w1 = files w0"
      "activity_log w1 = activity_log w0" "clock w1 = clock w0"
    by blast
  have "encrypt_items F keys [] w = (Inr ((p, JStr ?c) # enc), w1)"
    using e r Cons k by simp
  then have "save_keys_linux F keys w =
               (Inr (), exec (save_keys_ops (JObj ((p, JStr ?c) # enc))) w1)"
    by (simp add: save_keys_linux_def)
  moreover have "list_all2 (encrypted_with F mk) ((p, JStr ?c) # enc) keys"
    using l Cons k by (auto simp: encrypted_with_def)
  ultimately show ?thesis
    using v s t by (auto simp: save_keys_ops_def exec_def)
qed

lemma load_after_save_keys_linux:
  assumes ok: "fernet_ok F" and usable: "key_usable F w" and d: "distinct (map fst keys)"
  shows "\<exists>w1. save_keys_linux F keys w = (Inr (), w1) \<and> load_keys_linux F w1 = (keys, w1)"
proof -
  from save_keys_linux_usable [OF ok usable d] obtain enc w1 where
    s: "save_keys_linux F keys w = (Inr (), w1)"
    and f: "files w1 = (files w)(KEYS_FILE \<mapsto> Doc (JObj enc))"
    and c: "keys = [] \<and> enc = [] \<and> master_key_file w1 = master_key_file w \<or>
            (\<exists>mk. valid_key F mk \<and> master_key_file w1 = Some mk \<and>
                  list_all2 (encrypted_with F mk) enc keys)"
    by blast
  from c have "decrypt_items F enc [] w1 = (Inr keys, w1)"
  proof
    assume "keys = [] \<and> enc = [] \<and> master_key_file w1 = master_key_file w"
    then show ?thesis by simp
  next
    assume "\<exists>mk. valid_key F mk \<and> master_key_file w1 = Some mk \<and>
                 list_all2 (encrypted_with F mk) enc keys"
    then obtain mk where v: "valid_key F mk" and m: "master_key_file w1 = Some mk"
      and l: "list_all2 (encrypted_with F mk) enc keys" by blast
    from decrypt_items_stored [OF ok m v l d, of "[]"] show ?thesis by simp
  qed
  then have "load_keys_linux F w1 = (keys, w1)"
    using f by (simp add: load_keys_linux_def)
  with s show ?thesis by blast
qed

lemma decrypt_key_usable:
  assumes ok: "fernet_ok F" and usable: "key_usable F w"
  shows "key_usable F (snd (decrypt_key F e w)) \<and> files (snd (decrypt_key F e w)) = files w"
proof -
  from get_master_key_usable [OF ok usable] obtain mk w0 where
    g: "get_master_key F w = (mk, w0)" and v: "valid_key F mk"
    and m: "master_key_file w0 = Some mk" and f: "files w0 = files w"
    by blast
  have "snd (decrypt_key F e w) = w0"
    using g by (simp add: decrypt_key_def split: json.splits sum.splits option.splits)
  then show ?thesis using v m f by (simp add: key_usable_def)
qed

lemma decrypt_items_usable:
  assumes ok: "fernet_ok F"
  shows "key_usable F w \<Longrightarrow> distinct (map fst acc) \<Longrightarrow>
         key_usable F (snd (decrypt_items F enc acc w)) \<and>
         files (snd (decrypt_items F enc acc w)) = files w \<and>
         (\<forall>keys. fst (decrypt_items F enc acc w) = Inr keys \<longrightarrow> distinct (map fst keys))"
proof (induction enc arbitrary: acc w)
  case Nil
  then show ?case by simp
next
  case (Cons e enc)
  obtain p j where e: "e = (p, j)" by (cases e)
  obtain r w1 where dk: "decrypt_key F j w = (r, w1)" by (cases "decrypt_key F j w")
  from decrypt_key_usable [OF ok Cons.prems(1), of j] dk
  have u: "key_usable F w1" and f: "files w1 = files w" by simp_all
  show ?case
  proof (cases r)
    case (Inl err)
    then show ?thesis using e dk u f by simp
  next
    case (Inr plain)
    have d: "distinct (map fst (AList.update p plain acc))"
      using Cons.prems(2) by (simp add: distinct_update)
    from Cons.IH [OF u d] show ?thesis using e dk Inr f by simp
  qed
qed

lemma load_keys_linux_usable:
  assumes ok: "fernet_ok F" and usable: "key_usable F w"
  shows "key_usable F (snd (load_keys_linux F w)) \<and>
         files (snd (load_keys_linux F w)) = files w \<and>
         distinct (map fst (fst (load_keys_linux F w)))"
proof (cases "files w KEYS_FILE")
  case None
  then show ?thesis using usable by (simp add: load_keys_linux_def)
next
  case (Some c)
  show ?thesis
  proof (cases c)
    case (Malformed t)
    then show ?thesis using Some usable by (simp add: load_keys_linux_def)
  next
    case (Doc j)
    show ?thesis
    proof (cases j)
      case (JObj data)
      obtain r w1 where di: "decrypt_items F data [] w = (r, w1)"
        by (cases "decrypt_items F data [] w")
      from decrypt_items_usable [OF ok usable, of "[]" data] di
      have u: "key_usable F w1" and f: "files w1 = files w"
        and d: "\<forall>keys. r = Inr keys \<longrightarrow> distinct (map fst keys)" by simp_all
      show ?thesis
        using Some Doc JObj di u f d
        by (cases r) (simp_all add: load_keys_linux_def)
    qed (use Some Doc usable in \<open>simp_all add: load_keys_linux_def\<close>)
  qed
qed

lemma load_after_add_key_linux:
  assumes ok: "fernet_ok F" and usable: "key_usable F w"
    and known: "lower provider \<in> fst ` set PROVIDERS_linux"
  shows "\<exists>w1. add_key_linux F provider api_key w = (Inr (), w1) \<and>
           map_of (fst (load_keys_linux F w1)) (lower provider) = Some api_key"
proof -
  obtain keys w0 where l: "load_keys_linux F w = (keys, w0)"
    by (cases "load_keys_linux F w")
  from load_keys_linux_usable [OF ok usable] l
  have u: "key_usable F w0" and d: "distinct (map fst keys)" by simp_all
  let ?keys = "AList.update (lower provider) api_key keys"
  have d1: "distinct (map fst ?keys)" using d by (simp add: distinct_update)
  from load_after_save_keys_linux [OF ok u d1] obtain w1 where
    s: "save_keys_linux F ?keys w0 = (Inr (), w1)"
    and r: "load_keys_linux F w1 = (?keys, w1)" by blast
  have "add_key_linux F provider api_key w = (Inr (), w1)"
    using known l s by (simp add: add_key_linux_def Let_def)
  moreover have "map_of (fst (load_keys_linux F w1)) (lower provider) = Some api_key"
    using r by (simp add: update_conv')
  ultimately show ?thesis by blast
qed

text \<open>
  Claim C1. A credential stored in the vault is read back exactly. For every cipher that
  keeps the library's promise and every state in which the master key can be used
  (the key file is missing, or holds a key the cipher accepts): \<^verbatim>\<open>encrypt_key\<close> returns
  a text that \<^verbatim>\<open>decrypt_key\<close> turns back into the credential; \<^verbatim>\<open>save_keys\<close> followed by
  \<^verbatim>\<open>load_keys\<close> of \<^verbatim>\<open>clawapi-linux.py\<close> returns the dict that was saved, for all
  provider identifiers and credentials in it; and after \<^verbatim>\<open>add_key\<close> for a provider of the
  catalogue, \<^verbatim>\<open>load_keys\<close> has the credential under the provider's identifier.
\<close>

theorem vault_round_trip:
  assumes "fernet_ok F" and "key_usable F w"
  shows "(\<exists>c w1. encrypt_key F cred w = (Inr c, w1) \<and>
                 decrypt_key F (JStr c) w1 = (Inr cred, w1)) \<and>
         (distinct (map fst keys) \<longrightarrow>
            (\<exists>w1. save_keys_linux F keys w = (Inr (), w1) \<and>
                  load_keys_linux F w1 = (keys, w1))) \<and>
         (lower provider \<in> fst ` set PROVIDERS_linux \<longrightarrow>
            (\<exists>w1. add_key_linux F provider cred w = (Inr (), w1) \<and>
                  map_of (fst (load_keys_linux F w1)) (lower provider) = Some cred))"
  using decrypt_encrypt_key [OF assms] load_after_save_keys_linux [OF assms]
    load_after_add_key_linux [OF assms]
  by blast

theorem vault_round_trip_witness:
  "fernet_ok test_cipher \<and> key_usable test_cipher fresh_world \<and>
   distinct (map fst [(''openai'', ''sk-1''), (''groq'', ''gsk-2'')]) \<and>
   lower ''Anthropic'' \<in> fst ` set PROVIDERS_linux \<and>
   (\<exists>c w1. encrypt_key test_cipher ''key123'' fresh_world = (Inr c, w1) \<and>
           decrypt_key test_cipher (JStr c) w1 = (Inr ''key123'', w1)) \<and>
   (\<exists>w1. save_keys_linux test_cipher [(''openai'', ''sk-1''), (''groq'', ''gsk-2'')]
            fresh_world = (Inr (), w1) \<and>
         load_keys_linux test_cipher w1 = ([(''openai'', ''sk-1''), (''groq'', ''gsk-2'')], w1)) \<and>
   (\<exists>w1. add_key_linux test_cipher ''Anthropic'' ''key123'' fresh_world = (Inr (), w1) \<and>
         map_of (fst (load_keys_linux test_cipher w1)) (lower ''Anthropic'') = Some ''key123'')"
proof -
  have u: "key_usable test_cipher fresh_world"
    by (simp add: key_usable_def fresh_world_def)
  have d: "distinct (map fst [(''openai'', ''sk-1''), (''groq'', ''gsk-2'')])"
    by simp
  have k: "lower ''Anthropic'' \<in> fst ` set PROVIDERS_linux"
    by code_simp
  show ?thesis
    using vault_round_trip [OF test_cipher_ok u, of "''key123''"
        "[(''openai'', ''sk-1''), (''groq'', ''gsk-2'')]" "''Anthropic''"]
      test_cipher_ok u d k
    by blast
qed

subsection \<open>A vault with an entry that does not decrypt\<close>

lemma decrypt_key_world:
  "master_key_file w = Some mk \<Longrightarrow> snd (decrypt_key F e w) = w"
  by (simp add: decrypt_key_def get_master_key_stored
      split: json.splits sum.splits option.splits)

lemma decrypt_items_fail:
  assumes "master_key_file w = Some mk"
    and "\<exists>e \<in> snd ` set data. isl (fst (decrypt_key F e w))"
  shows "\<exists>err. decrypt_items F data acc w = (Inl err, w)"
  using assms(2)
proof (induction data arbitrary: acc)
  case Nil
  then show ?case by simp
next
  case (Cons x data)
  obtain p e where x: "x = (p, e)" by (cases x)
  obtain r where dk: "decrypt_key F e w = (r, w)"
    using decrypt_key_world [OF assms(1), of F e] by (cases "decrypt_key F e w") simp
  show ?case
  proof (cases r)
    case (Inl err)
    then show ?thesis using x dk by simp
  next
    case (Inr plain)
    then have "\<exists>e \<in> snd ` set data. isl (fst (decrypt_key F e w))"
      using Cons.prems x dk by auto
    from Cons.IH [OF this] show ?thesis using x dk Inr by simp
  qed
qed

lemma decrypt_items_all:
  assumes "master_key_file w = Some mk"
    and "distinct (map fst data)" and "fst ` set acc \<inter> fst ` set data = {}"
    and "\<forall>e \<in> snd ` set data. \<not> isl (fst (decrypt_key F e w))"
  shows "\<exists>keys. decrypt_items F data acc w = (Inr (acc @ keys), w) \<and>
           list_all2 (\<lambda>(p, e) (q, plain). p = q \<and> fst (decrypt_key F e w) = Inr plain)
             data keys"
  using assms(2,3,4)
proof (induction data arbitrary: acc)
  case Nil
  then show ?case by simp
next
  case (Cons x data)
  obtain p e where x: "x = (p, e)" by (cases x)
  obtain r where dk: "decrypt_key F e w = (r, w)"
    using decrypt_key_world [OF assms(1), of F e] by (cases "decrypt_key F e w") simp
  from Cons.prems(3) x dk obtain plain where r: "r = Inr plain" by (cases r) auto
  have fresh: "p \<notin> fst ` set acc" using Cons.prems(2) x by auto
  have u: "AList.update p plain acc = acc @ [(p, plain)]" using fresh by (rule update_fresh)
  have d: "distinct (map fst data)" using Cons.prems(1) by simp
  have i: "fst ` set (acc @ [(p, plain)]) \<inter> fst ` set data = {}"
    using Cons.prems(1,2) x by auto
  have a: "\<forall>e \<in> snd ` set data. \<not> isl (fst (decrypt_key F e w))"
    using Cons.prems(3) by auto
  from Cons.IH [OF d i a] obtain keys where
    k: "decrypt_items F data (acc @ [(p, plain)]) w = (Inr ((acc @ [(p, plain)]) @ keys), w)"
    and l: "list_all2 (\<lambda>(p, e) (q, plain). p = q \<and> fst (decrypt_key F e w) = Inr plain)
              data keys"
    by blast
  have "decrypt_items F (x # data) acc w = (Inr (acc @ ((p, plain) # keys)), w)"
    using x dk r u k by simp
  moreover have "list_all2 (\<lambda>(p, e) (q, plain). p = q \<and> fst (decrypt_key F e w) = Inr plain)
                   (x # data) ((p, plain) # keys)"
    using l x dk r by simp
  ultimately show ?case by blast
qed

text \<open>
  Claim C3. The claim: in a vault with entries that decrypt and one entry whose
  ciphertext is corrupted or truncated, a bulk read still yields the valid entries.
  In \<open>vault_with_truncated_entry\<close> the entry of \<^verbatim>\<open>openai\<close> decrypts to \<^verbatim>\<open>key123\<close> on its
  own, and \<^verbatim>\<open>load_keys\<close> of \<^verbatim>\<open>clawapi-linux.py\<close> returns the empty dict: \<^verbatim>\<open>openai\<close> is
  not in it.
\<close>

theorem load_keys_linux_truncated_entry:
  "fst (decrypt_key test_cipher (JStr (b64encode (replicate 8 (CHR ''A'') @ ''key123'')))
          vault_with_truncated_entry) = Inr ''key123'' \<and>
   fst (load_keys_linux test_cipher vault_with_truncated_entry) = []"
  by code_simp

text \<open>
  Claim C3, amended. When the master key file exists and the keys file holds an object:
  if every value of the object decrypts, \<^verbatim>\<open>load_keys\<close> returns every identifier with its
  credential; if one value does not decrypt, \<^verbatim>\<open>load_keys\<close> returns the empty dict, so
  every identifier is absent.
\<close>

theorem load_keys_linux_all_or_nothing:
  assumes "master_key_file w = Some mk" and "files w KEYS_FILE = Some (Doc (JObj data))"
    and "distinct (map fst data)"
  shows "((\<forall>e \<in> snd ` set data. \<not> isl (fst (decrypt_key F e w))) \<longrightarrow>
            list_all2 (\<lambda>(p, e) (q, plain). p = q \<and> fst (decrypt_key F e w) = Inr plain)
              data (fst (load_keys_linux F w))) \<and>
         ((\<exists>e \<in> snd ` set data. isl (fst (decrypt_key F e w))) \<longrightarrow>
            load_keys_linux F w = ([], w))"
proof (intro conjI impI)
  assume "\<forall>e \<in> snd ` set data. \<not> isl (fst (decrypt_key F e w))"
  from decrypt_items_all [OF assms(1) assms(3) _ this, of "[]"] obtain keys where
    "decrypt_items F data [] w = (Inr keys, w)"
    "list_all2 (\<lambda>(p, e) (q, plain). p = q \<and> fst (decrypt_key F e w) = Inr plain) data keys"
    by auto
  then show "list_all2 (\<lambda>(p, e) (q, plain). p = q \<and> fst (decrypt_key F e w) = Inr plain)
               data (fst (load_keys_linux F w))"
    using assms(2) by (simp add: load_keys_linux_def)
next
  assume "\<exists>e \<in> snd ` set data. isl (fst (decrypt_key F e w))"
  from decrypt_items_fail [OF assms(1) this, of "[]"] obtain err where
    "decrypt_items F data [] w = (Inl err, w)" by blast
  then show "load_keys_linux F w = ([], w)"
    using assms(2) by (simp add: load_keys_linux_def)
qed

theorem load_keys_linux_all_or_nothing_witness:
  "master_key_file vault_with_truncated_entry = Some (replicate 8 (CHR ''A'')) \<and>
   files vault_with_truncated_entry KEYS_FILE = Some (Doc (JObj
     [(''openai'', JStr (b64encode (replicate 8 (CHR ''A'') @ ''key123''))),
      (''anthropic'',
       JStr (slice_to 10 (b64encode (replicate 8 (CHR ''A'') @ ''key456''))))])) \<and>
   isl (fst (decrypt_key test_cipher
     (JStr (slice_to 10 (b64encode (replicate 8 (CHR ''A'') @ ''key456''))))
     vault_with_truncated_entry)) \<and>
   load_keys_linux test_cipher vault_with_truncated_entry = ([], vault_with_truncated_entry) \<and>
   fst (load_keys_linux test_cipher
     (vault_with_truncated_entry\<lparr>files := (\<lambda>p. None)(KEYS_FILE \<mapsto> Doc (JObj
        [(''openai'', JStr (b64encode (replicate 8 (CHR ''A'') @ ''key123'')))]))\<rparr>)) =
     [(''openai'', ''key123'')]"
proof -
  let ?good = "(''openai'', JStr (b64encode (replicate 8 (CHR ''A'') @ ''key123'')))"
  let ?data = "[?good,
      (''anthropic'',
       JStr (slice_to 10 (b64encode (replicate 8 (CHR ''A'') @ ''key456''))))]"
  let ?w = "vault_with_truncated_entry\<lparr>files := (\<lambda>p. None)(KEYS_FILE \<mapsto>
              Doc (JObj [?good]))\<rparr>"
  have m: "master_key_file vault_with_truncated_entry = Some (replicate 8 (CHR ''A''))"
    by (simp add: vault_with_truncated_entry_def fresh_world_def)
  have f: "files vault_with_truncated_entry KEYS_FILE = Some (Doc (JObj ?data))"
    by (simp add: vault_with_truncated_entry_def fresh_world_def)
  have d: "distinct (map fst ?data)" by simp
  have i: "isl (fst (decrypt_key test_cipher
     (JStr (slice_to 10 (b64encode (replicate 8 (CHR ''A'') @ ''key456''))))
     vault_with_truncated_entry))"
    by code_simp
  then have e: "\<exists>e \<in> snd ` set ?data. isl (fst (decrypt_key test_cipher e
     vault_with_truncated_entry))"
    by simp
  have m1: "master_key_file ?w = Some (replicate 8 (CHR ''A''))"
    using m by simp
  have f1: "files ?w KEYS_FILE = Some (Doc (JObj [?good]))" by simp
  have d1: "distinct (map fst [?good])" by simp
  have v: "valid_key test_cipher (replicate 8 (CHR ''A''))"
    by (simp add: test_cipher_def)
  have g: "decrypt_key test_cipher (snd ?good) ?w = (Inr ''key123'', ?w)"
    using decrypt_key_stored [OF test_cipher_ok m1 v, of 0 "''key123''"]
    by (simp add: test_cipher_def)
  then have a: "\<forall>e \<in> snd ` set [?good]. \<not> isl (fst (decrypt_key test_cipher e ?w))"
    by simp
  from load_keys_linux_all_or_nothing [OF m1 f1 d1, of test_cipher] a
  have "list_all2 (\<lambda>(p, e) (q, plain). p = q \<and> fst (decrypt_key test_cipher e ?w) = Inr plain)
          [?good] (fst (load_keys_linux test_cipher ?w))"
    by blast
  then have h: "fst (load_keys_linux test_cipher ?w) = [(''openai'', ''key123'')]"
    using g by (auto simp: list_all2_Cons1)
  show ?thesis
    using load_keys_linux_all_or_nothing [OF m f d, of test_cipher] m f i e h by blast
qed

subsection \<open>Operations on documents that succeed\<close>

lemma and_then_Inr: "and_then r f = Inr y \<longleftrightarrow> (\<exists>x. r = Inr x \<and> f x = Inr y)"
  by (cases r) (simp_all add: and_then_def)

lemma py_in_obj: "py_in k (JObj d) = Inr (k \<in> fst ` set d)"
  by simp

lemma py_getitem_Inr: "py_getitem j k = Inr v \<longleftrightarrow> (\<exists>d. j = JObj d \<and> map_of d k = Some v)"
  by (cases j) (auto split: option.splits)

lemma py_setitem_Inr:
  "py_setitem j k v = Inr j' \<longleftrightarrow> (\<exists>d. j = JObj d \<and> j' = JObj (AList.update k v d))"
  by (cases j) auto

lemma py_delitem_Inr:
  "py_delitem j k = Inr j' \<longleftrightarrow>
     (\<exists>d. j = JObj d \<and> k \<in> fst ` set d \<and> j' = JObj (AList.delete k d))"
  by (cases j) auto

lemma map_of_update_other: "k \<noteq> k' \<Longrightarrow> map_of (AList.update k' v d) k = map_of d k"
  by (simp add: update_conv')

lemma map_of_update_same: "map_of (AList.update k v d) k = Some v"
  by (simp add: update_conv')



lemma key_in_dom: "k \<in> fst ` set d \<longleftrightarrow> map_of d k \<noteq> None"
  by (simp add: map_of_eq_None_iff)

subsection \<open>Writing into OpenClaw's configuration keeps the other fields\<close>

lemma upsert_provider_siblings:
  assumes m: "map_of d ''models'' = Some (JObj ms)"
    and p: "map_of ms ''providers'' = Some (JObj ps)"
  shows "upsert_provider (JObj d) provider model api_key =
           Inr (JObj (AList.update ''models''
             (JObj (AList.update ''providers''
               (JObj (AList.update (provider @ '':default'')
                  (JObj [(''provider'', JStr provider), (''model'', JStr model),
                         (''apiKey'', JStr api_key)]) ps)) ms)) d))"
proof -
  have a: "''models'' \<in> fst ` set d" using m by (simp add: key_in_dom)
  have b: "''providers'' \<in> fst ` set ms" using p by (simp add: key_in_dom)
  show ?thesis
    using a b m p by (simp add: upsert_provider_def and_then_def)
qed

lemma upsert_provider_no_models:
  assumes "map_of d ''models'' = None"
  shows "\<exists>d'. upsert_provider (JObj d) provider model api_key = Inr (JObj d') \<and>
           (\<forall>k. k \<noteq> ''models'' \<longrightarrow> map_of d' k = map_of d k) \<and>
           map_of d' ''models'' =
             Some (JObj [(''providers'',
               JObj [(provider @ '':default'', provider_entry provider model api_key)])])"
proof -
  have a: "''models'' \<notin> fst ` set d" using assms by (simp add: key_in_dom)
  show ?thesis
    using a
    by (simp add: upsert_provider_def and_then_def provider_entry_def update_conv')
qed

lemma upsert_provider_no_providers:
  assumes m: "map_of d ''models'' = Some (JObj ms)" and p: "map_of ms ''providers'' = None"
  shows "\<exists>d' ms'. upsert_provider (JObj d) provider model api_key = Inr (JObj d') \<and>
           (\<forall>k. k \<noteq> ''models'' \<longrightarrow> map_of d' k = map_of d k) \<and>
           map_of d' ''models'' = Some (JObj ms') \<and>
           (\<forall>j. j \<noteq> ''providers'' \<longrightarrow> map_of ms' j = map_of ms j) \<and>
           map_of ms' ''providers'' =
             Some (JObj [(provider @ '':default'', provider_entry provider model api_key)])"
proof -
  have a: "''models'' \<in> fst ` set d" using m by (simp add: key_in_dom)
  have b: "''providers'' \<notin> fst ` set ms" using p by (simp add: key_in_dom)
  show ?thesis
    using a b m
    by (simp add: upsert_provider_def and_then_def provider_entry_def update_conv')
qed

lemma upsert_provider_bad_providers:
  assumes m: "map_of d ''models'' = Some (JObj ms)" and p: "map_of ms ''providers'' = Some v"
    and v: "\<forall>ps. v \<noteq> JObj ps"
  shows "isl (upsert_provider (JObj d) provider model api_key)"
proof -
  have a: "''models'' \<in> fst ` set d" using m by (simp add: key_in_dom)
  have b: "''providers'' \<in> fst ` set ms" using p by (simp add: key_in_dom)
  show ?thesis
    using a b m p v
    by (cases v) (simp_all add: upsert_provider_def and_then_def)
qed

lemma upsert_provider_bad_models:
  assumes m: "map_of d ''models'' = Some v" and v: "\<forall>ms. v \<noteq> JObj ms"
  shows "isl (upsert_provider (JObj d) provider model api_key)"
proof -
  have a: "''models'' \<in> fst ` set d" using m by (simp add: key_in_dom)
  show ?thesis
    using a m v
    by (cases v) (simp_all add: upsert_provider_def and_then_def split: if_splits)
qed

lemma sync_to_openclaw_raises:
  assumes "files w OPENCLAW_CONFIG = Some (Doc (JObj d))"
    and "isl (upsert_provider (JObj d) provider model api_key)"
  shows "snd (sync_to_openclaw provider model api_key w) = w"
  using assms
  by (cases "upsert_provider (JObj d) provider model api_key")
    (simp_all add: sync_to_openclaw_def get_openclaw_config_path_def)

lemma sync_to_openclaw_written:
  assumes "files w OPENCLAW_CONFIG = Some (Doc (JObj d))"
    and "upsert_provider (JObj d) provider model api_key = Inr (JObj d')"
  shows "files (snd (sync_to_openclaw provider model api_key w)) OPENCLAW_CONFIG =
           Some (Doc (JObj d'))"
  using assms
  by (simp add: sync_to_openclaw_def get_openclaw_config_path_def openclaw_write_ops_def
      exec_def)

lemma update_openclaw_model_written:
  assumes "files w OPENCLAW_CONFIG = Some (Doc (JObj d))"
  shows "fst (update_openclaw_model chosen w) = Inr True \<and>
         (\<exists>d'. files (snd (update_openclaw_model chosen w)) OPENCLAW_CONFIG =
                  Some (Doc (JObj d')) \<and>
               (\<forall>k. k \<noteq> ''defaultModel'' \<and> k \<noteq> ''model'' \<longrightarrow> map_of d' k = map_of d k) \<and>
               map_of d' ''defaultModel'' = Some chosen \<and> map_of d' ''model'' = Some chosen)"
  using assms
  by (simp add: update_openclaw_model_def and_then_def set_default_model_def
      openclaw_write_ops_def exec_def update_conv')

text \<open>
  Claim C5. Pushing a selection into OpenClaw's configuration leaves every field as it
  was, apart from the entry of the provider. When the configuration holds an object,
  it holds an object afterwards, and a value is the value \<^verbatim>\<open>json.load\<close> reads.

  After \<^verbatim>\<open>sync_to_openclaw\<close> of \<^verbatim>\<open>clawapi-linux.py\<close> every key other than \<^verbatim>\<open>models\<close> has
  the value it had. Where there was no \<^verbatim>\<open>models\<close>, it is now the object with
  \<^verbatim>\<open>providers\<close> alone, holding the entry of the provider alone. Where \<^verbatim>\<open>models\<close> was
  an object, every key of it other than \<^verbatim>\<open>providers\<close> has the value it had; where it
  had no \<^verbatim>\<open>providers\<close>, that is now the object with the entry alone, and where
  \<^verbatim>\<open>providers\<close> was an object, every entry of it other than the provider's has the
  value it had and the provider's is the new entry. Where \<^verbatim>\<open>models\<close> or
  \<^verbatim>\<open>providers\<close> was anything else than an object, the function raises and the
  configuration is the document it was.

  After \<^verbatim>\<open>update_openclaw_model\<close> of \<^verbatim>\<open>webui.py\<close> every key other than
  \<^verbatim>\<open>defaultModel\<close> and \<^verbatim>\<open>model\<close> has the value it had, and these two have the chosen
  model. So a field \<^verbatim>\<open>theme\<close> with the value \<^verbatim>\<open>dark\<close> is still there.
\<close>

theorem push_selection_keeps_other_fields:
  assumes "files w OPENCLAW_CONFIG = Some (Doc (JObj d))"
  shows "(\<exists>d'. files (snd (sync_to_openclaw provider model api_key w)) OPENCLAW_CONFIG =
                 Some (Doc (JObj d')) \<and>
               (\<forall>k. k \<noteq> ''models'' \<longrightarrow> map_of d' k = map_of d k) \<and>
               (case map_of d ''models'' of
                  None \<Rightarrow>
                    map_of d' ''models'' =
                      Some (JObj [(''providers'',
                        JObj [(provider @ '':default'',
                               provider_entry provider model api_key)])])
                | Some (JObj ms) \<Rightarrow>
                    (case map_of ms ''providers'' of
                       None \<Rightarrow>
                         (\<exists>ms'. map_of d' ''models'' = Some (JObj ms') \<and>
                            (\<forall>j. j \<noteq> ''providers'' \<longrightarrow> map_of ms' j = map_of ms j) \<and>
                            map_of ms' ''providers'' =
                              Some (JObj [(provider @ '':default'',
                                           provider_entry provider model api_key)]))
                     | Some (JObj ps) \<Rightarrow>
                         (\<exists>ms' ps'. map_of d' ''models'' = Some (JObj ms') \<and>
                            (\<forall>j. j \<noteq> ''providers'' \<longrightarrow> map_of ms' j = map_of ms j) \<and>
                            map_of ms' ''providers'' = Some (JObj ps') \<and>
                            (\<forall>q. q \<noteq> provider @ '':default'' \<longrightarrow> map_of ps' q = map_of ps q) \<and>
                            map_of ps' (provider @ '':default'') =
                              Some (provider_entry provider model api_key))
                     | Some _ \<Rightarrow> d' = d)
                | Some _ \<Rightarrow> d' = d)) \<and>
         (\<exists>d'. files (snd (update_openclaw_model chosen w)) OPENCLAW_CONFIG =
                 Some (Doc (JObj d')) \<and>
               (\<forall>k. k \<noteq> ''defaultModel'' \<and> k \<noteq> ''model'' \<longrightarrow> map_of d' k = map_of d k) \<and>
               map_of d' ''defaultModel'' = Some chosen \<and> map_of d' ''model'' = Some chosen)"
proof (rule conjI)
  show "\<exists>d'. files (snd (update_openclaw_model chosen w)) OPENCLAW_CONFIG =
                 Some (Doc (JObj d')) \<and>
               (\<forall>k. k \<noteq> ''defaultModel'' \<and> k \<noteq> ''model'' \<longrightarrow> map_of d' k = map_of d k) \<and>
               map_of d' ''defaultModel'' = Some chosen \<and> map_of d' ''model'' = Some chosen"
    using update_openclaw_model_written [OF assms, of chosen] by simp
next
  let ?sync = "sync_to_openclaw provider model api_key w"
  let ?goal = "\<lambda>d'. files (snd ?sync) OPENCLAW_CONFIG = Some (Doc (JObj d')) \<and>
               (\<forall>k. k \<noteq> ''models'' \<longrightarrow> map_of d' k = map_of d k) \<and>
               (case map_of d ''models'' of
                  None \<Rightarrow>
                    map_of d' ''models'' =
                      Some (JObj [(''providers'',
                        JObj [(provider @ '':default'',
                               provider_entry provider model api_key)])])
                | Some (JObj ms) \<Rightarrow>
                    (case map_of ms ''providers'' of
                       None \<Rightarrow>
                         (\<exists>ms'. map_of d' ''models'' = Some (JObj ms') \<and>
                            (\<forall>j. j \<noteq> ''providers'' \<longrightarrow> map_of ms' j = map_of ms j) \<and>
                            map_of ms' ''providers'' =
                              Some (JObj [(provider @ '':default'',
                                           provider_entry provider model api_key)]))
                     | Some (JObj ps) \<Rightarrow>
                         (\<exists>ms' ps'. map_of d' ''models'' = Some (JObj ms') \<and>
                            (\<forall>j. j \<noteq> ''providers'' \<longrightarrow> map_of ms' j = map_of ms j) \<and>
                            map_of ms' ''providers'' = Some (JObj ps') \<and>
                            (\<forall>q. q \<noteq> provider @ '':default'' \<longrightarrow> map_of ps' q = map_of ps q) \<and>
                            map_of ps' (provider @ '':default'') =
                              Some (provider_entry provider model api_key))
                     | Some _ \<Rightarrow> d' = d)
                | Some _ \<Rightarrow> d' = d)"
  show "\<exists>d'. ?goal d'"
  proof (cases "map_of d ''models''")
    case None
    from upsert_provider_no_models [OF None, of provider model api_key] obtain d' where
      u: "upsert_provider (JObj d) provider model api_key = Inr (JObj d')"
      and k: "\<forall>k. k \<noteq> ''models'' \<longrightarrow> map_of d' k = map_of d k"
      and m: "map_of d' ''models'' =
             Some (JObj [(''providers'',
               JObj [(provider @ '':default'', provider_entry provider model api_key)])])"
      by blast
    have g: "?goal d'"
      using sync_to_openclaw_written [OF assms u] k m None by simp
    show ?thesis by (rule exI [of ?goal d'], rule g)
  next
    case (Some v)
    show ?thesis
    proof (cases "\<exists>ms. v = JObj ms")
      case False
      then have nv: "\<forall>ms. v \<noteq> JObj ms" by simp
      have f: "files (snd ?sync) OPENCLAW_CONFIG = Some (Doc (JObj d))"
        using sync_to_openclaw_raises
          [OF assms upsert_provider_bad_models [OF Some nv, of provider model api_key]] assms
        by simp
      have g: "?goal d"
        using f Some nv by (cases v) simp_all
      show ?thesis by (rule exI [of ?goal d], rule g)
    next
      case True
      then obtain ms where v: "v = JObj ms" by blast
      have m: "map_of d ''models'' = Some (JObj ms)" using Some v by simp
      show ?thesis
      proof (cases "map_of ms ''providers''")
        case None
        from upsert_provider_no_providers [OF m None, of provider model api_key]
        obtain d' ms' where
          u: "upsert_provider (JObj d) provider model api_key = Inr (JObj d')"
          and k: "\<forall>k. k \<noteq> ''models'' \<longrightarrow> map_of d' k = map_of d k"
          and r: "map_of d' ''models'' = Some (JObj ms')"
            "\<forall>j. j \<noteq> ''providers'' \<longrightarrow> map_of ms' j = map_of ms j"
            "map_of ms' ''providers'' =
               Some (JObj [(provider @ '':default'', provider_entry provider model api_key)])"
          by blast
        have g: "?goal d'"
          using sync_to_openclaw_written [OF assms u] k r m None by simp
        show ?thesis by (rule exI [of ?goal d'], rule g)
      next
        case (Some pv)
        show ?thesis
        proof (cases "\<exists>ps. pv = JObj ps")
          case False
          then have np: "\<forall>ps. pv \<noteq> JObj ps" by simp
          have f: "files (snd ?sync) OPENCLAW_CONFIG = Some (Doc (JObj d))"
            using sync_to_openclaw_raises
              [OF assms upsert_provider_bad_providers [OF m Some np, of provider model api_key]]
              assms
            by simp
          have g: "?goal d"
            using f m Some np by (cases pv) simp_all
          show ?thesis by (rule exI [of ?goal d], rule g)
        next
          case True
          then obtain ps where pv: "pv = JObj ps" by blast
          have p: "map_of ms ''providers'' = Some (JObj ps)" using Some pv by simp
          let ?ps = "AList.update (provider @ '':default'')
               (JObj [(''provider'', JStr provider), (''model'', JStr model),
                      (''apiKey'', JStr api_key)]) ps"
          let ?ms = "AList.update ''providers'' (JObj ?ps) ms"
          let ?d = "AList.update ''models'' (JObj ?ms) d"
          have u: "upsert_provider (JObj d) provider model api_key = Inr (JObj ?d)"
            by (rule upsert_provider_siblings [OF m p])
          have g: "?goal ?d"
            using sync_to_openclaw_written [OF assms u] m p
            by (simp add: update_conv' provider_entry_def)
          show ?thesis by (rule exI [of ?goal ?d], rule g)
        qed
      qed
    qed
  qed
qed

theorem push_selection_keeps_other_fields_witness:
  "files (fresh_world\<lparr>files := (\<lambda>p. None)(OPENCLAW_CONFIG \<mapsto>
       Doc (JObj [(''theme'', JStr ''dark''),
                  (''models'', JObj [(''default'', JStr ''x'')])]))\<rparr>) OPENCLAW_CONFIG =
     Some (Doc (JObj [(''theme'', JStr ''dark''),
                      (''models'', JObj [(''default'', JStr ''x'')])])) \<and>
   (\<exists>d' ms'. files (snd (sync_to_openclaw ''anthropic'' ''claude-3-opus'' ''sk-1''
        (fresh_world\<lparr>files := (\<lambda>p. None)(OPENCLAW_CONFIG \<mapsto>
           Doc (JObj [(''theme'', JStr ''dark''),
                      (''models'', JObj [(''default'', JStr ''x'')])]))\<rparr>))) OPENCLAW_CONFIG =
      Some (Doc (JObj d')) \<and> map_of d' ''theme'' = Some (JStr ''dark'') \<and>
      map_of d' ''models'' = Some (JObj ms') \<and> map_of ms' ''default'' = Some (JStr ''x'')) \<and>
   (\<exists>d'. files (snd (update_openclaw_model (JStr ''claude-3-opus'')
        (fresh_world\<lparr>files := (\<lambda>p. None)(OPENCLAW_CONFIG \<mapsto>
           Doc (JObj [(''theme'', JStr ''dark''),
                      (''models'', JObj [(''default'', JStr ''x'')])]))\<rparr>))) OPENCLAW_CONFIG =
      Some (Doc (JObj d')) \<and> map_of d' ''theme'' = Some (JStr ''dark'') \<and>
      map_of d' ''models'' = Some (JObj [(''default'', JStr ''x'')])) \<and>
   (\<exists>d' ms' ps'. files (snd (sync_to_openclaw ''anthropic'' ''claude-3-opus'' ''sk-1''
        (fresh_world\<lparr>files := (\<lambda>p. None)(OPENCLAW_CONFIG \<mapsto>
           Doc (JObj [(''models'', JObj [(''providers'',
                         JObj [(''openai:default'', JStr ''kept'')])])]))\<rparr>))) OPENCLAW_CONFIG =
      Some (Doc (JObj d')) \<and> map_of d' ''models'' = Some (JObj ms') \<and>
      map_of ms' ''providers'' = Some (JObj ps') \<and>
      map_of ps' ''openai:default'' = Some (JStr ''kept''))"
proof -
  let ?ms1 = "[(''default'', JStr ''x'')]"
  let ?d1 = "[(''theme'', JStr ''dark''), (''models'', JObj ?ms1)]"
  let ?w1 = "fresh_world\<lparr>files := (\<lambda>p. None)(OPENCLAW_CONFIG \<mapsto> Doc (JObj ?d1))\<rparr>"
  let ?ps2 = "[(''openai:default'', JStr ''kept'')]"
  let ?ms2 = "[(''providers'', JObj ?ps2)]"
  let ?d2 = "[(''models'', JObj ?ms2)]"
  let ?w2 = "fresh_world\<lparr>files := (\<lambda>p. None)(OPENCLAW_CONFIG \<mapsto> Doc (JObj ?d2))\<rparr>"
  have f1: "files ?w1 OPENCLAW_CONFIG = Some (Doc (JObj ?d1))" by simp
  have f2: "files ?w2 OPENCLAW_CONFIG = Some (Doc (JObj ?d2))" by simp
  have n: "''theme'' \<noteq> ''models''" "''theme'' \<noteq> ''defaultModel''" "''theme'' \<noteq> ''model''"
    "''default'' \<noteq> ''providers''" "''models'' \<noteq> ''defaultModel''" "''models'' \<noteq> ''model''"
    "''openai:default'' \<noteq> ''anthropic'' @ '':default''"
    by simp_all
  note t1 = push_selection_keeps_other_fields [OF f1, of "''anthropic''" "''claude-3-opus''"
      "''sk-1''" "JStr ''claude-3-opus''"]
  note t2 = push_selection_keeps_other_fields [OF f2, of "''anthropic''" "''claude-3-opus''"
      "''sk-1''" "JStr ''claude-3-opus''"]
  from t1 obtain d' ms' where
    a: "files (snd (sync_to_openclaw ''anthropic'' ''claude-3-opus'' ''sk-1'' ?w1))
          OPENCLAW_CONFIG = Some (Doc (JObj d'))"
      "\<forall>k. k \<noteq> ''models'' \<longrightarrow> map_of d' k = map_of ?d1 k"
      "map_of d' ''models'' = Some (JObj ms')"
      "\<forall>j. j \<noteq> ''providers'' \<longrightarrow> map_of ms' j = map_of ?ms1 j"
    by auto
  from a(2) n(1) have a1: "map_of d' ''theme'' = Some (JStr ''dark'')" by simp
  from a(4) n(4) have a2: "map_of ms' ''default'' = Some (JStr ''x'')" by simp
  from t1 obtain e' where
    b: "files (snd (update_openclaw_model (JStr ''claude-3-opus'') ?w1))
          OPENCLAW_CONFIG = Some (Doc (JObj e'))"
      "\<forall>k. k \<noteq> ''defaultModel'' \<and> k \<noteq> ''model'' \<longrightarrow> map_of e' k = map_of ?d1 k"
    by auto
  from b(2) n(2,3) have b1: "map_of e' ''theme'' = Some (JStr ''dark'')" by simp
  from b(2) n(5,6) have b2: "map_of e' ''models'' = Some (JObj ?ms1)" by simp
  from t2 obtain d2 ms2 ps2 where
    c: "files (snd (sync_to_openclaw ''anthropic'' ''claude-3-opus'' ''sk-1'' ?w2))
          OPENCLAW_CONFIG = Some (Doc (JObj d2))"
      "map_of d2 ''models'' = Some (JObj ms2)" "map_of ms2 ''providers'' = Some (JObj ps2)"
      "\<forall>q. q \<noteq> ''anthropic'' @ '':default'' \<longrightarrow> map_of ps2 q = map_of ?ps2 q"
    by auto
  from c(4) n(7) have c1: "map_of ps2 ''openai:default'' = Some (JStr ''kept'')" by simp
  have r1: "\<exists>d' ms'. files (snd (sync_to_openclaw ''anthropic'' ''claude-3-opus'' ''sk-1'' ?w1))
          OPENCLAW_CONFIG = Some (Doc (JObj d')) \<and> map_of d' ''theme'' = Some (JStr ''dark'') \<and>
      map_of d' ''models'' = Some (JObj ms') \<and> map_of ms' ''default'' = Some (JStr ''x'')"
    using a(1,3) a1 a2 by blast
  have r2: "\<exists>d'. files (snd (update_openclaw_model (JStr ''claude-3-opus'') ?w1))
          OPENCLAW_CONFIG = Some (Doc (JObj d')) \<and> map_of d' ''theme'' = Some (JStr ''dark'') \<and>
      map_of d' ''models'' = Some (JObj ?ms1)"
    using b(1) b1 b2 by blast
  have r3: "\<exists>d' ms' ps'. files (snd (sync_to_openclaw ''anthropic'' ''claude-3-opus'' ''sk-1'' ?w2))
          OPENCLAW_CONFIG = Some (Doc (JObj d')) \<and> map_of d' ''models'' = Some (JObj ms') \<and>
      map_of ms' ''providers'' = Some (JObj ps') \<and>
      map_of ps' ''openai:default'' = Some (JStr ''kept'')"
    using c(1,2,3) c1 by blast
  show ?thesis
    using f1 r1 r2 r3 by (intro conjI)
qed

text \<open>
  Claim C6. When OpenClaw's configuration file does not exist, pushing a selection
  returns \<^verbatim>\<open>False\<close> and changes no file: the state after the call is the state before
  it. \<^verbatim>\<open>False\<close> is returned in no other case: when the file exists the functions return
  \<^verbatim>\<open>True\<close> or raise, so the missing file is told apart from success and from failure.
\<close>

theorem push_selection_missing_config:
  "(files w OPENCLAW_CONFIG = None \<longrightarrow>
      sync_to_openclaw provider model api_key w = (Inr False, w) \<and>
      update_openclaw_model chosen w = (Inr False, w)) \<and>
   (files w OPENCLAW_CONFIG \<noteq> None \<longrightarrow>
      fst (sync_to_openclaw provider model api_key w) \<noteq> Inr False \<and>
      fst (update_openclaw_model chosen w) \<noteq> Inr False)"
  by (auto simp: sync_to_openclaw_def get_openclaw_config_path_def update_openclaw_model_def
      split: option.splits sum.splits)

theorem push_selection_missing_config_witness:
  "files fresh_world OPENCLAW_CONFIG = None \<and>
   sync_to_openclaw ''anthropic'' ''claude-sonnet-4-6'' ''key123'' fresh_world =
     (Inr False, fresh_world) \<and>
   update_openclaw_model (JStr ''claude-sonnet-4-6'') fresh_world = (Inr False, fresh_world) \<and>
   files (fresh_world\<lparr>files := (\<lambda>p. None)(OPENCLAW_CONFIG \<mapsto> Doc (JObj []))\<rparr>)
     OPENCLAW_CONFIG \<noteq> None \<and>
   fst (sync_to_openclaw ''anthropic'' ''claude-sonnet-4-6'' ''key123''
     (fresh_world\<lparr>files := (\<lambda>p. None)(OPENCLAW_CONFIG \<mapsto> Doc (JObj []))\<rparr>)) \<noteq>
     Inr False \<and>
   fst (update_openclaw_model (JStr ''claude-sonnet-4-6'')
     (fresh_world\<lparr>files := (\<lambda>p. None)(OPENCLAW_CONFIG \<mapsto> Doc (JObj []))\<rparr>)) \<noteq>
     Inr False"
proof -
  let ?w = "fresh_world\<lparr>files := (\<lambda>p. None)(OPENCLAW_CONFIG \<mapsto> Doc (JObj []))\<rparr>"
  have f: "files fresh_world OPENCLAW_CONFIG = None" by (simp add: fresh_world_def)
  have g: "files ?w OPENCLAW_CONFIG \<noteq> None" by simp
  show ?thesis
    using push_selection_missing_config [of fresh_world "''anthropic''" "''claude-sonnet-4-6''"
        "''key123''" "JStr ''claude-sonnet-4-6''"]
      push_selection_missing_config [of ?w "''anthropic''" "''claude-sonnet-4-6''"
        "''key123''" "JStr ''claude-sonnet-4-6''"] f g
    by simp
qed

subsection \<open>The end-to-end scenario\<close>

text \<open>
  Claim C4. The claim: after \<^verbatim>\<open>put\<close>, \<^verbatim>\<open>setModel\<close> and \<^verbatim>\<open>pushSelection\<close> against the
  configuration \<^verbatim>\<open>{"foo": 1}\<close> the configuration is the expected document, and in
  particular \<^verbatim>\<open>pushSelection\<close> sets the keys \<^verbatim>\<open>model\<close> and \<^verbatim>\<open>defaultModel\<close>.
  \<^verbatim>\<open>sync_to_openclaw\<close> of \<^verbatim>\<open>clawapi-linux.py\<close>, the function that upserts the provider
  entry, run on that configuration writes a document without the keys \<^verbatim>\<open>model\<close> and
  \<^verbatim>\<open>defaultModel\<close>, which is not the expected one.
\<close>

theorem sync_to_openclaw_sets_no_model:
  "files (snd (sync_to_openclaw ''anthropic'' ''claude-sonnet-4-6'' ''key123'' openclaw_foo))
     OPENCLAW_CONFIG =
   Some (Doc (JObj
     [(''foo'', JNum 1),
      (''models'', JObj [(''providers'', JObj [(''anthropic:default'',
         JObj [(''provider'', JStr ''anthropic''),
               (''model'', JStr ''claude-sonnet-4-6''),
               (''apiKey'', JStr ''key123'')])])])])) \<and>
   \<not> json_eq
     (JObj
       [(''foo'', JNum 1),
        (''models'', JObj [(''providers'', JObj [(''anthropic:default'',
           JObj [(''provider'', JStr ''anthropic''),
                 (''model'', JStr ''claude-sonnet-4-6''),
                 (''apiKey'', JStr ''key123'')])])])])
     expected_config"
  by code_simp

text \<open>
  Claim C4, amended. After \<^verbatim>\<open>add_key\<close> of \<^verbatim>\<open>clawapi-linux.py\<close>, \<^verbatim>\<open>set_model\<close> of
  \<^verbatim>\<open>clawapi.py\<close> and \<^verbatim>\<open>sync_to_openclaw\<close> of \<^verbatim>\<open>clawapi-linux.py\<close>, run in this order
  against the configuration \<^verbatim>\<open>{"foo": 1}\<close>, the configuration is equal to the expected
  document. The keys \<^verbatim>\<open>defaultModel\<close> and \<^verbatim>\<open>model\<close> are written by \<^verbatim>\<open>set_model\<close>;
  \<^verbatim>\<open>sync_to_openclaw\<close> adds the entry \<^verbatim>\<open>anthropic:default\<close> under
  \<^verbatim>\<open>models.providers\<close> and leaves the two keys as they are.
\<close>

theorem end_to_end_scenario:
  "(let w1 = snd (add_key_linux test_cipher ''anthropic'' ''key123'' openclaw_foo);
        w2 = snd (set_model_cli ''anthropic'' ''claude-sonnet-4-6'' w1);
        w3 = snd (sync_to_openclaw ''anthropic'' ''claude-sonnet-4-6'' ''key123'' w2)
    in files w1 OPENCLAW_CONFIG = Some (Doc (JObj [(''foo'', JNum 1)])) \<and>
       files w2 OPENCLAW_CONFIG =
         Some (Doc (JObj [(''foo'', JNum 1),
                          (''defaultModel'', JStr ''claude-sonnet-4-6''),
                          (''model'', JStr ''claude-sonnet-4-6'')])) \<and>
       files w3 OPENCLAW_CONFIG =
         Some (Doc (JObj [(''foo'', JNum 1),
                          (''defaultModel'', JStr ''claude-sonnet-4-6''),
                          (''model'', JStr ''claude-sonnet-4-6''),
                          (''models'', JObj [(''providers'', JObj [(''anthropic:default'',
                             JObj [(''provider'', JStr ''anthropic''),
                                   (''model'', JStr ''claude-sonnet-4-6''),
                                   (''apiKey'', JStr ''key123'')])])])])) \<and>
       (case files w3 OPENCLAW_CONFIG of
          Some (Doc j) \<Rightarrow> json_eq j expected_config
        | _ \<Rightarrow> False))"
  by code_simp

subsection \<open>Showing a stored key\<close>

lemma masked_long:
  "length key > 12 \<Longrightarrow> masked key = take 8 key @ ''...'' @ drop (length key - 4) key"
  by (simp add: masked_def slice_to_def slice_from_def nat_diff_distrib')

lemma masked_short: "length key \<le> 12 \<Longrightarrow> masked key = ''***''"
  by (simp add: masked_def)

text \<open>
  Claim C7. The claim: for the stored credential \<^verbatim>\<open>sk-ABCDEFGHIJKLMNOP\<close> the masked view
  starts with \<^verbatim>\<open>sk-ABCDE\<close> and ends with \<^verbatim>\<open>MNOP\<close>. \<^verbatim>\<open>show_key\<close> of \<^verbatim>\<open>clawapi-linux.py\<close>
  prints \<^verbatim>\<open>sk-ABCDE...MNOP\<close> for it. \<^verbatim>\<open>show_key\<close> of \<^verbatim>\<open>clawapi.py\<close>, for the same
  credential stored by \<^verbatim>\<open>add_provider\<close>, prints nothing: it cuts the stored ciphertext to
  ten characters before decrypting it, and \<^verbatim>\<open>base64.b64decode\<close> raises on them.
\<close>

theorem show_key_cli_raises:
  "fst (show_key_cli test_cipher ''openai''
          (snd (add_provider_cli test_cipher ''openai'' ''sk-ABCDEFGHIJKLMNOP'' fresh_world))) =
     Inl BinasciiError \<and>
   fst (show_key_linux test_cipher ''openai''
          (snd (add_key_linux test_cipher ''openai'' ''sk-ABCDEFGHIJKLMNOP'' fresh_world))) =
     ''openai: sk-ABCDE...MNOP''"
  by code_simp

subsection \<open>Selecting and removing\<close>

lemma select_model_ok:
  assumes "case map_of d ''selected_models'' of None \<Rightarrow> True | Some (JObj s) \<Rightarrow> True
           | Some _ \<Rightarrow> False"
  shows "\<exists>d' s'. select_model (JObj d) provider model = Inr (JObj d') \<and>
           map_of d' ''selected_models'' = Some (JObj s') \<and>
           map_of s' provider = Some model \<and>
           (\<forall>q. q \<noteq> provider \<longrightarrow>
              map_of s' q = (case map_of d ''selected_models'' of
                               Some (JObj s) \<Rightarrow> map_of s q | _ \<Rightarrow> None)) \<and>
           (\<forall>k. k \<noteq> ''selected_models'' \<longrightarrow> map_of d' k = map_of d k)"
proof (cases "map_of d ''selected_models''")
  case None
  then have "''selected_models'' \<notin> fst ` set d" by (simp add: key_in_dom)
  then show ?thesis
    using None
    by (simp add: select_model_def and_then_def map_of_update_same map_of_update_other
        update_conv')
next
  case (Some j)
  with assms obtain s where j: "j = JObj s" by (cases j) auto
  have "''selected_models'' \<in> fst ` set d" using Some by (simp add: key_in_dom)
  then show ?thesis
    using Some j
    by (simp add: select_model_def and_then_def map_of_update_same map_of_update_other
        update_conv')
qed

lemma load_config_ok:
  assumes "selection_store_ok w"
  shows "\<exists>d. load_config w = Inr (JObj d) \<and>
           (case map_of d ''selected_models'' of None \<Rightarrow> True | Some (JObj s) \<Rightarrow> True
            | Some _ \<Rightarrow> False) \<and>
           (\<forall>q. (case map_of d ''selected_models'' of Some (JObj s) \<Rightarrow> map_of s q | _ \<Rightarrow> None) =
                  selection w q)"
proof (cases "files w CONFIG_FILE")
  case None
  then show ?thesis by (simp add: load_config_def selection_def)
next
  case (Some c)
  with assms obtain j where c: "c = Doc j"
    by (cases c) (simp_all add: selection_store_ok_def)
  with assms Some obtain d where j: "j = JObj d"
    by (cases j) (simp_all add: selection_store_ok_def)
  have "case map_of d ''selected_models'' of None \<Rightarrow> True | Some (JObj s) \<Rightarrow> True
        | Some _ \<Rightarrow> False"
    using assms Some c j by (simp add: selection_store_ok_def)
  then show ?thesis
    using Some c j by (simp add: load_config_def selection_def)
qed


lemma selection_saved:
  assumes "files w' CONFIG_FILE = Some (Doc (JObj d'))"
    and "map_of d' ''selected_models'' = Some (JObj s')"
  shows "selection w' q = map_of s' q"
  using assms by (simp add: selection_def)

lemma set_model_cli_config:
  assumes "and_then (load_config w) (\<lambda>config. select_model config pid (JStr model)) =
           Inr config"
  shows "fst (set_model_cli pid model w) = Inr () \<and>
         files (snd (set_model_cli pid model w)) CONFIG_FILE = Some (Doc config)"
  using assms
  by (simp add: set_model_cli_def Let_def save_config_def save_config_ops_def exec_def
      openclaw_write_ops_def split: option.splits sum.splits)

lemma set_model_web_config:
  assumes "and_then (load_config w) (\<lambda>config. select_model config provider (form_value chosen)) =
           Inr config"
  shows "files (snd (set_model_web provider chosen w)) CONFIG_FILE = Some (Doc config)"
  using assms
  by (simp add: set_model_web_def Let_def save_config_def save_config_ops_def exec_def
      openclaw_write_ops_def update_openclaw_model_def log_activity_def log_activity_ops_def
      split: option.splits sum.splits bool.splits)

lemma set_default_model_obj:
  "(\<exists>config. set_default_model j model = Inr config) \<longleftrightarrow> (\<exists>d. j = JObj d)"
  by (cases j) (simp_all add: set_default_model_def and_then_def)

lemma set_model_web_result:
  assumes "and_then (load_config w) (\<lambda>config. select_model config provider (form_value chosen)) =
           Inr config"
  shows "fst (set_model_web provider chosen w) = Inr () \<longleftrightarrow> openclaw_ok w"
proof (cases "files w OPENCLAW_CONFIG")
  case None
  then show ?thesis
    using assms
    by (simp add: set_model_web_def Let_def save_config_def save_config_ops_def exec_def
        update_openclaw_model_def openclaw_ok_def)
next
  case (Some c)
  show ?thesis
  proof (cases c)
    case (Malformed t)
    then show ?thesis
      using assms Some
      by (simp add: set_model_web_def Let_def save_config_def save_config_ops_def exec_def
          update_openclaw_model_def openclaw_ok_def and_then_def)
  next
    case (Doc j)
    show ?thesis
    proof (cases "set_default_model j (form_value chosen)")
      case (Inl e)
      then have "\<not> (\<exists>d. j = JObj d)"
        using set_default_model_obj [of j "form_value chosen"] by simp
      then have "\<not> openclaw_ok w"
        using Some Doc by (cases j) (simp_all add: openclaw_ok_def)
      then show ?thesis
        using assms Some Doc Inl
        by (simp add: set_model_web_def Let_def save_config_def save_config_ops_def exec_def
            update_openclaw_model_def and_then_def)
    next
      case (Inr oc)
      then have "\<exists>d. j = JObj d"
        using set_default_model_obj [of j "form_value chosen"] by blast
      then have "openclaw_ok w"
        using Some Doc by (auto simp: openclaw_ok_def)
      then show ?thesis
        using assms Some Doc Inr
        by (simp add: set_model_web_def Let_def save_config_def save_config_ops_def exec_def
            update_openclaw_model_def and_then_def)
    qed
  qed
qed

lemma selection_reset_all: "selection (reset_all w) q = None"
  by (simp add: reset_all_def selection_def log_activity_def log_activity_ops_def
      save_config_def save_config_ops_def save_keys_def save_keys_ops_def exec_def)

text \<open>
  Claim C8. The claim: \<^verbatim>\<open>setModel\<close> with an empty or absent model name is rejected and
  does not modify the selection store. On a machine with no configuration yet,
  \<^verbatim>\<open>set_model\<close> of \<^verbatim>\<open>clawapi.py\<close> with the empty name returns normally and stores the
  empty name for the provider, and the route \<^verbatim>\<open>/set_model\<close> of \<^verbatim>\<open>webui.py\<close> with no
  \<^verbatim>\<open>model\<close> field in the form stores \<^verbatim>\<open>null\<close> for the provider.
\<close>

theorem set_model_accepts_empty_name:
  "fst (set_model_cli ''openai'' '''' fresh_world) = Inr () \<and>
   files (snd (set_model_cli ''openai'' '''' fresh_world)) CONFIG_FILE =
     Some (Doc (JObj [(''selected_models'', JObj [(''openai'', JStr '''')])])) \<and>
   fst (set_model_web ''openai'' None fresh_world) = Inr () \<and>
   files (snd (set_model_web ''openai'' None fresh_world)) CONFIG_FILE =
     Some (Doc (JObj [(''selected_models'', JObj [(''openai'', JNull)])]))"
  by code_simp

text \<open>
  Claim C8, amended. No model name is rejected. For every provider identifier and every
  model name, the empty and the absent one among them, whenever the selection store can
  be read: \<^verbatim>\<open>set_model\<close> records the name it is given as the selection of the provider
  and keeps the selections of the other providers, so it never clears a selection;
  \<^verbatim>\<open>set_model\<close> of \<^verbatim>\<open>clawapi.py\<close> returns without an error; the route \<^verbatim>\<open>/set_model\<close> of
  \<^verbatim>\<open>webui.py\<close> returns without an error exactly when OpenClaw's configuration is
  missing or holds an object, and otherwise raises after it has stored the selection.
  The route \<^verbatim>\<open>/reset\<close> of \<^verbatim>\<open>webui.py\<close> clears the selection of every provider.
\<close>

theorem set_model_stores_any_name:
  assumes "selection_store_ok w"
  shows "fst (set_model_cli pid model w) = Inr () \<and>
         selection (snd (set_model_cli pid model w)) pid = Some (JStr model) \<and>
         selection (snd (set_model_web pid chosen w)) pid = Some (form_value chosen) \<and>
         (\<forall>q. q \<noteq> pid \<longrightarrow>
            selection (snd (set_model_cli pid model w)) q = selection w q \<and>
            selection (snd (set_model_web pid chosen w)) q = selection w q) \<and>
         (fst (set_model_web pid chosen w) = Inr () \<longleftrightarrow> openclaw_ok w) \<and>
         (\<forall>q. selection (reset_all w) q = None)"
proof -
  from load_config_ok [OF assms] obtain d where
    l: "load_config w = Inr (JObj d)"
    and o: "case map_of d ''selected_models'' of None \<Rightarrow> True | Some (JObj s) \<Rightarrow> True
            | Some _ \<Rightarrow> False"
    and s: "\<forall>q. (case map_of d ''selected_models'' of Some (JObj s) \<Rightarrow> map_of s q
                 | _ \<Rightarrow> None) = selection w q"
    by blast
  from select_model_ok [OF o, of pid "JStr model"] obtain d1 s1 where
    a: "select_model (JObj d) pid (JStr model) = Inr (JObj d1)"
    "map_of d1 ''selected_models'' = Some (JObj s1)" "map_of s1 pid = Some (JStr model)"
    "\<forall>q. q \<noteq> pid \<longrightarrow> map_of s1 q = (case map_of d ''selected_models'' of
                               Some (JObj s) \<Rightarrow> map_of s q | _ \<Rightarrow> None)"
    by blast
  from select_model_ok [OF o, of pid "form_value chosen"] obtain d2 s2 where
    b: "select_model (JObj d) pid (form_value chosen) = Inr (JObj d2)"
    "map_of d2 ''selected_models'' = Some (JObj s2)" "map_of s2 pid = Some (form_value chosen)"
    "\<forall>q. q \<noteq> pid \<longrightarrow> map_of s2 q = (case map_of d ''selected_models'' of
                               Some (JObj s) \<Rightarrow> map_of s q | _ \<Rightarrow> None)"
    by blast
  have c1: "and_then (load_config w) (\<lambda>config. select_model config pid (JStr model)) =
            Inr (JObj d1)"
    using l a(1) by (simp add: and_then_def)
  have c2: "and_then (load_config w) (\<lambda>config. select_model config pid (form_value chosen)) =
            Inr (JObj d2)"
    using l b(1) by (simp add: and_then_def)
  from set_model_cli_config [OF c1] have
    r1: "fst (set_model_cli pid model w) = Inr ()"
    and f1: "files (snd (set_model_cli pid model w)) CONFIG_FILE = Some (Doc (JObj d1))"
    by simp_all
  from set_model_web_config [OF c2] have
    f2: "files (snd (set_model_web pid chosen w)) CONFIG_FILE = Some (Doc (JObj d2))" .
  have e1: "\<And>q. selection (snd (set_model_cli pid model w)) q = map_of s1 q"
    using selection_saved [OF f1 a(2)] .
  have e2: "\<And>q. selection (snd (set_model_web pid chosen w)) q = map_of s2 q"
    using selection_saved [OF f2 b(2)] .
  show ?thesis
    using r1 e1 e2 a(3,4) b(3,4) s set_model_web_result [OF c2] selection_reset_all
    by simp
qed

theorem set_model_stores_any_name_witness:
  "selection_store_ok fresh_world \<and> ''groq'' \<noteq> ''openai'' \<and>
   fst (set_model_cli ''openai'' '''' fresh_world) = Inr () \<and>
   selection (snd (set_model_cli ''openai'' '''' fresh_world)) ''openai'' = Some (JStr '''') \<and>
   selection (snd (set_model_web ''openai'' None fresh_world)) ''openai'' = Some JNull \<and>
   selection (snd (set_model_cli ''openai'' '''' fresh_world)) ''groq'' =
     selection fresh_world ''groq'' \<and>
   openclaw_ok fresh_world \<and>
   fst (set_model_web ''openai'' None fresh_world) = Inr () \<and>
   selection (reset_all fresh_world) ''openai'' = None \<and>
   selection_store_ok
     (fresh_world\<lparr>files := (\<lambda>p. None)(OPENCLAW_CONFIG \<mapsto> Malformed ''{'')\<rparr>) \<and>
   \<not> openclaw_ok
     (fresh_world\<lparr>files := (\<lambda>p. None)(OPENCLAW_CONFIG \<mapsto> Malformed ''{'')\<rparr>) \<and>
   fst (set_model_web ''openai'' None
     (fresh_world\<lparr>files := (\<lambda>p. None)(OPENCLAW_CONFIG \<mapsto> Malformed ''{'')\<rparr>)) \<noteq> Inr () \<and>
   selection (snd (set_model_web ''openai'' None
     (fresh_world\<lparr>files := (\<lambda>p. None)(OPENCLAW_CONFIG \<mapsto> Malformed ''{'')\<rparr>)))
     ''openai'' = Some JNull"
proof -
  let ?w = "fresh_world\<lparr>files := (\<lambda>p. None)(OPENCLAW_CONFIG \<mapsto> Malformed ''{'')\<rparr>"
  have o: "selection_store_ok fresh_world"
    by (simp add: selection_store_ok_def fresh_world_def)
  have n: "''groq'' \<noteq> ''openai''" by simp
  have k: "openclaw_ok fresh_world" by (simp add: openclaw_ok_def fresh_world_def)
  have o2: "selection_store_ok ?w" by (simp add: selection_store_ok_def)
  have k2: "\<not> openclaw_ok ?w" by (simp add: openclaw_ok_def)
  show ?thesis
    using set_model_stores_any_name [OF o, of "''openai''" "''''" None]
      set_model_stores_any_name [OF o2, of "''openai''" "''''" None] o n k o2 k2
    by (simp add: form_value_def)
qed









subsection \<open>How the files are written\<close>

text \<open>
  Claim C2. The claim: every mutating operation writes a temporary file and renames it
  over the target, so that a crash in between leaves the target as it was. Removing the
  only provider of a vault writes the empty dict with \<^verbatim>\<open>save_keys\<close>; after the first
  step of that write the keys file is empty, not what it was.
\<close>

theorem save_keys_crash_loses_vault:
  "files (fresh_world\<lparr>files := (\<lambda>p. None)(KEYS_FILE \<mapsto>
       Doc (JObj [(''openai'', JStr ''configured'')]))\<rparr>) KEYS_FILE =
     Some (Doc (JObj [(''openai'', JStr ''configured'')])) \<and>
   files (crash_after 1 (save_keys_ops (JObj []))
            (fresh_world\<lparr>files := (\<lambda>p. None)(KEYS_FILE \<mapsto>
               Doc (JObj [(''openai'', JStr ''configured'')]))\<rparr>)) KEYS_FILE =
     Some (Malformed [])"
  by (simp add: crash_after_def save_keys_ops_def exec_def)

text \<open>
  Claim C2, amended. Every write of the vault, of the selection store and of OpenClaw's
  configuration opens the target itself for writing, which truncates it, and then writes
  the whole new document into it; there is no temporary file and no rename. A crash after
  the first step leaves the target empty, whatever it held; after both steps it holds the
  new document. An append to the log adds the line after the text the log had.
\<close>

theorem writes_truncate_in_place:
  "save_keys_ops keys = [Open_w KEYS_FILE, Dump KEYS_FILE keys] \<and>
   save_config_ops config = [Open_w CONFIG_FILE, Dump CONFIG_FILE config] \<and>
   openclaw_write_ops oc = [Open_w OPENCLAW_CONFIG, Dump OPENCLAW_CONFIG oc] \<and>
   files (crash_after 1 (save_keys_ops keys) w) KEYS_FILE = Some (Malformed []) \<and>
   files (crash_after 1 (save_config_ops config) w) CONFIG_FILE = Some (Malformed []) \<and>
   files (crash_after 1 (openclaw_write_ops oc) w) OPENCLAW_CONFIG = Some (Malformed []) \<and>
   files (save_keys keys w) KEYS_FILE = Some (Doc keys) \<and>
   files (save_config config w) CONFIG_FILE = Some (Doc config) \<and>
   files (exec (openclaw_write_ops oc) w) OPENCLAW_CONFIG = Some (Doc oc) \<and>
   activity_log (log_activity msg lvl w) =
     Some ((case activity_log w of None \<Rightarrow> [] | Some old \<Rightarrow> old) @ log_line (clock w) msg lvl)"
  by (simp add: crash_after_def save_keys_ops_def save_config_ops_def openclaw_write_ops_def
      save_keys_def save_config_def log_activity_def log_activity_ops_def exec_def
      split: option.splits)

end
